theory Spec2Isabelle
  imports Complex_Main
begin

section \<open>Clock readings and durations\<close>

text \<open>
  A naive \<^verbatim>\<open>datetime\<close> is a count of microseconds, a \<^verbatim>\<open>timedelta\<close> a signed
  difference of two of them; both are exact integers in Python. Every operation below
  receives the reading of \<^verbatim>\<open>datetime.now()\<close> (and, where the source uses it,
  of \<^verbatim>\<open>datetime.utcnow()\<close>) as an argument: the clock is read once per call.
\<close>

type_synonym datetime = int
type_synonym timedelta = int

definition minutes :: "int \<Rightarrow> timedelta" where
  \<comment> \<open>\<^verbatim>\<open>timedelta(minutes=m)\<close>\<close>
  "minutes m = m * 60000000"

definition total_minutes :: "timedelta \<Rightarrow> int" where
  \<comment> \<open>\<^verbatim>\<open>int(td.total_seconds() / 60)\<close>: the quotient truncated towards zero\<close>
  "total_minutes d = (if 0 \<le> d then d div 60000000 else - ((- d) div 60000000))"

definition hour_of :: "datetime \<Rightarrow> nat" where
  \<comment> \<open>\<^verbatim>\<open>t.hour\<close> and, below, \<^verbatim>\<open>t.minute\<close>; the count starts at a midnight\<close>
  "hour_of t = nat ((t div 3600000000) mod 24)"

definition minute_of :: "datetime \<Rightarrow> nat" where
  "minute_of t = nat ((t div 60000000) mod 60)"

definition truthy :: "int option \<Rightarrow> bool" where
  \<comment> \<open>Python truth value of an optional integer: \<^verbatim>\<open>None\<close> and \<^verbatim>\<open>0\<close> are false\<close>
  "truthy v = (case v of None \<Rightarrow> False | Some n \<Rightarrow> n \<noteq> 0)"

section \<open>Focus sessions: the stored record (database/models/focus_session.py)\<close>

datatype FocusSessionStatus = PLANNED | ACTIVE | PAUSED | COMPLETED | CANCELLED

datatype FocusSessionType = FOCUS | SHORT_BREAK | LONG_BREAK

text \<open>
  The columns the lifecycle reads or writes. \<open>fs_id\<close> is the column \<^verbatim>\<open>id\<close>. The text
  columns, \<^verbatim>\<open>interruptions_count\<close>, \<^verbatim>\<open>notifications_enabled\<close> and \<^verbatim>\<open>created_at\<close>
  are written at creation only and read by none of the operations below.
\<close>

record FocusSession =
  fs_id :: nat
  user_id :: nat
  session_type :: FocusSessionType
  status :: FocusSessionStatus
  planned_duration :: int
  actual_duration :: "int option"
  paused_duration :: int
  planned_start :: datetime
  actual_start :: "datetime option"
  actual_end :: "datetime option"
  last_pause_start :: "datetime option"
  completion_rate :: "rat option"
  auto_start_next :: bool
  updated_at :: datetime

definition effective_duration_minutes :: "FocusSession \<Rightarrow> int" where
  "effective_duration_minutes s =
     (if truthy (actual_duration s)
      then (case actual_duration s of Some a \<Rightarrow> a - paused_duration s | None \<Rightarrow> planned_duration s)
      else planned_duration s)"

definition calculate_completion_rate :: "FocusSession \<Rightarrow> rat" where
  "calculate_completion_rate s =
     (case actual_duration s of
        None \<Rightarrow> 0
      | Some a \<Rightarrow>
          if a = 0 \<or> planned_duration s = 0 then 0
          else min 100 ((of_int a / of_int (planned_duration s)) * 100))"

section \<open>Focus sessions: CRUD (database/crud/focus_session.py)\<close>

text \<open>
  The table is the list of its rows in insertion order. \<^verbatim>\<open>db.commit()\<close> after a change
  of one loaded row writes that row back; every function returns its result together
  with the table it leaves.
\<close>

type_synonym focus_db = "FocusSession list"

definition get_session :: "focus_db \<Rightarrow> nat \<Rightarrow> FocusSession option" where
  \<comment> \<open>\<^verbatim>\<open>CRUDBase.get\<close>\<close>
  "get_session db sid = find (\<lambda>s. fs_id s = sid) db"

definition commit_session :: "focus_db \<Rightarrow> FocusSession \<Rightarrow> focus_db" where
  "commit_session db s = map (\<lambda>r. if fs_id r = fs_id s then s else r) db"

definition new_session_id :: "focus_db \<Rightarrow> nat" where
  \<comment> \<open>the autoincrement primary key: one more than the largest key in the table\<close>
  "new_session_id db = Suc (fold max (map fs_id db) 0)"

definition get_active_session :: "focus_db \<Rightarrow> nat \<Rightarrow> FocusSession option" where
  "get_active_session db uid =
     find (\<lambda>s. user_id s = uid \<and> (status s = ACTIVE \<or> status s = PAUSED)) db"

definition create_focus_session ::
  "focus_db \<Rightarrow> nat \<Rightarrow> FocusSessionType \<Rightarrow> int \<Rightarrow> bool \<Rightarrow> datetime \<Rightarrow> datetime
     \<Rightarrow> FocusSession \<times> focus_db" where
  "create_focus_session db uid stype duration_minutes auto now utcnow =
     (let session = \<lparr> fs_id = new_session_id db, user_id = uid, session_type = stype,
                       status = PLANNED, planned_duration = duration_minutes,
                       actual_duration = None, paused_duration = 0, planned_start = now,
                       actual_start = None, actual_end = None, last_pause_start = None,
                       completion_rate = None, auto_start_next = auto,
                       updated_at = utcnow \<rparr>
      in (session, db @ [session]))"

definition start_session :: "focus_db \<Rightarrow> nat \<Rightarrow> datetime \<Rightarrow> FocusSession option \<times> focus_db" where
  "start_session db sid now =
     (case get_session db sid of
        None \<Rightarrow> (None, db)
      | Some session \<Rightarrow>
          if status session = PLANNED
          then (let s' = session\<lparr> status := ACTIVE, actual_start := Some now, updated_at := now \<rparr>
                in (Some s', commit_session db s'))
          else (None, db))"

definition pause_session :: "focus_db \<Rightarrow> nat \<Rightarrow> datetime \<Rightarrow> FocusSession option \<times> focus_db" where
  "pause_session db sid now =
     (case get_session db sid of
        None \<Rightarrow> (None, db)
      | Some session \<Rightarrow>
          if status session = ACTIVE
          then (let s' = session\<lparr> status := PAUSED, last_pause_start := Some now,
                                   updated_at := now \<rparr>
                in (Some s', commit_session db s'))
          else (None, db))"

definition resume_session :: "focus_db \<Rightarrow> nat \<Rightarrow> datetime \<Rightarrow> FocusSession option \<times> focus_db" where
  "resume_session db sid now =
     (case get_session db sid of
        None \<Rightarrow> (None, db)
      | Some session \<Rightarrow>
          if status session = PAUSED
          then (let s1 = (case last_pause_start session of
                            Some lps \<Rightarrow>
                              session\<lparr> paused_duration :=
                                paused_duration session + total_minutes (now - lps) \<rparr>
                          | None \<Rightarrow> session);
                    s' = s1\<lparr> status := ACTIVE, last_pause_start := None, updated_at := now \<rparr>
                in (Some s', commit_session db s'))
          else (None, db))"

text \<open>
  After its commit \<^verbatim>\<open>complete_session\<close> awards experience and checks achievements inside
  a \<^verbatim>\<open>try\<close> whose handler only logs; that block writes other tables and is left out.
\<close>

definition complete_session :: "focus_db \<Rightarrow> nat \<Rightarrow> datetime \<Rightarrow> FocusSession option \<times> focus_db" where
  "complete_session db sid now =
     (case get_session db sid of
        None \<Rightarrow> (None, db)
      | Some session \<Rightarrow>
          if status session = ACTIVE \<or> status session = PAUSED
          then (let s1 = session\<lparr> status := COMPLETED, actual_end := Some now \<rparr>;
                    s2 = (case actual_start s1 of
                            Some t0 \<Rightarrow> s1\<lparr> actual_duration := Some (total_minutes (now - t0)) \<rparr>
                          | None \<Rightarrow> s1);
                    s' = s2\<lparr> completion_rate := Some (calculate_completion_rate s2),
                              updated_at := now \<rparr>
                in (Some s', commit_session db s'))
          else (None, db))"

definition cancel_session :: "focus_db \<Rightarrow> nat \<Rightarrow> datetime \<Rightarrow> FocusSession option \<times> focus_db" where
  "cancel_session db sid now =
     (case get_session db sid of
        None \<Rightarrow> (None, db)
      | Some session \<Rightarrow>
          if status session = COMPLETED then (None, db)
          else (let s' = session\<lparr> status := CANCELLED, actual_end := Some now,
                                   updated_at := now \<rparr>
                in (Some s', commit_session db s')))"

section \<open>The focus timer (core/focus_timer.py)\<close>

text \<open>
  The cache entry \<^verbatim>\<open>active_sessions[user_id]\<close>; \<open>info_session_type\<close> is its key
  \<^verbatim>\<open>"session_type"\<close>.
\<close>

record session_info =
  session_id :: nat
  start_time :: datetime
  duration_minutes :: int
  info_session_type :: FocusSessionType
  sessions_completed :: int

text \<open>
  Job ids are the strings \<^verbatim>\<open>focus_complete_{user}_{session}\<close>,
  \<^verbatim>\<open>break_complete_{user}_{session}\<close> and \<^verbatim>\<open>progress_{user}_{session}_{i}\<close>; the
  numbers determine the string and the string the numbers, so an id is the tuple. A job
  is a \<^verbatim>\<open>DateTrigger\<close> with the callback and its arguments. The scheduler is the
  map from job ids to pending jobs: \<^verbatim>\<open>add_job(..., replace_existing=True)\<close> stores,
  \<^verbatim>\<open>remove_job\<close> deletes (its exception for a missing id is swallowed by the caller).
\<close>

datatype job_id =
    focus_complete nat nat
  | break_complete nat nat
  | progress nat nat int

datatype callback =
    CompleteFocusSession nat
  | CompleteBreakSession nat
  | SendProgressNotification nat int int

record job =
  run_date :: datetime
  func :: callback

record FocusTimer =
  focus_sessions :: focus_db
  active_sessions :: "nat \<rightharpoonup> session_info"
  scheduler :: "job_id \<rightharpoonup> job"
  short_break_duration :: int
  long_break_duration :: int
  sessions_before_long_break :: int

definition range_step :: "int \<Rightarrow> int \<Rightarrow> int list" where
  \<comment> \<open>\<^verbatim>\<open>range(step, stop, step)\<close> for a positive step: the multiples of the step
      below \<open>stop\<close>; the source calls \<^verbatim>\<open>range(5, duration_minutes, 5)\<close>\<close>
  "range_step step stop = map (\<lambda>k. step * int k) [1 ..< nat ((stop + (step - 1)) div step)]"

definition schedule_progress_notifications ::
  "(job_id \<rightharpoonup> job) \<Rightarrow> nat \<Rightarrow> int \<Rightarrow> nat \<Rightarrow> datetime \<Rightarrow> (job_id \<rightharpoonup> job)" where
  "schedule_progress_notifications js uid duration sid now =
     fold (\<lambda>i m. m(progress uid sid i \<mapsto>
                    \<lparr> run_date = now + minutes i,
                      func = SendProgressNotification uid i duration \<rparr>))
          (range_step 5 duration) js"

definition remove_progress_notifications ::
  "(job_id \<rightharpoonup> job) \<Rightarrow> nat \<Rightarrow> nat \<Rightarrow> (job_id \<rightharpoonup> job)" where
  \<comment> \<open>every job whose id starts with \<^verbatim>\<open>progress_{user}_{session}_\<close>\<close>
  "remove_progress_notifications js uid sid =
     (\<lambda>k. case k of
            progress u s i \<Rightarrow> if u = uid \<and> s = sid then None else js k
          | _ \<Rightarrow> js k)"

text \<open>
  \<^verbatim>\<open>start_focus_session\<close>: the result is the session object the caller receives,
  \<open>None\<close> where the source returns \<^verbatim>\<open>None\<close>. The title is not modelled.
\<close>

definition start_focus_session ::
  "FocusTimer \<Rightarrow> nat \<Rightarrow> int \<Rightarrow> bool \<Rightarrow> datetime \<Rightarrow> datetime
     \<Rightarrow> FocusSession option \<times> FocusTimer" where
  "start_focus_session st uid duration auto now utcnow =
     (case get_active_session (focus_sessions st) uid of
        Some active_session \<Rightarrow> (Some active_session, st)
      | None \<Rightarrow>
          (case create_focus_session (focus_sessions st) uid FOCUS duration auto now utcnow of
             (created, db1) \<Rightarrow>
               (case start_session db1 (fs_id created) now of
                  (None, db2) \<Rightarrow> (None, st\<lparr> focus_sessions := db2 \<rparr>)
                | (Some session, db2) \<Rightarrow>
                    (Some session,
                     st\<lparr> focus_sessions := db2,
                         active_sessions := (active_sessions st)(uid \<mapsto>
                           \<lparr> session_id = fs_id session, start_time = now,
                             duration_minutes = duration, info_session_type = FOCUS,
                             sessions_completed = 0 \<rparr>),
                         scheduler :=
                           schedule_progress_notifications
                             ((scheduler st)(focus_complete uid (fs_id session) \<mapsto>
                                \<lparr> run_date = now + minutes duration,
                                  func = CompleteFocusSession uid \<rparr>))
                             uid duration (fs_id session) now \<rparr>))))"

definition timer_pause_session :: "FocusTimer \<Rightarrow> nat \<Rightarrow> datetime \<Rightarrow> bool \<times> FocusTimer" where
  \<comment> \<open>\<^verbatim>\<open>FocusTimer.pause_session\<close>\<close>
  "timer_pause_session st uid now =
     (case active_sessions st uid of
        None \<Rightarrow> (False, st)
      | Some info \<Rightarrow>
          (case pause_session (focus_sessions st) (session_id info) now of
             (None, db1) \<Rightarrow> (False, st\<lparr> focus_sessions := db1 \<rparr>)
           | (Some session, db1) \<Rightarrow>
               (True,
                st\<lparr> focus_sessions := db1,
                    scheduler :=
                      remove_progress_notifications
                        ((scheduler st)(focus_complete uid (session_id info) := None))
                        uid (session_id info) \<rparr>)))"

definition timer_resume_session :: "FocusTimer \<Rightarrow> nat \<Rightarrow> datetime \<Rightarrow> bool \<times> FocusTimer" where
  \<comment> \<open>\<^verbatim>\<open>FocusTimer.resume_session\<close>\<close>
  "timer_resume_session st uid now =
     (case active_sessions st uid of
        None \<Rightarrow> (False, st)
      | Some info \<Rightarrow>
          (case resume_session (focus_sessions st) (session_id info) now of
             (None, db1) \<Rightarrow> (False, st\<lparr> focus_sessions := db1 \<rparr>)
           | (Some session, db1) \<Rightarrow>
               (let elapsed_time = now - start_time info;
                    remaining_minutes =
                      max 0 (duration_minutes info - total_minutes elapsed_time)
                in (True,
                    if 0 < remaining_minutes
                    then st\<lparr> focus_sessions := db1,
                             scheduler :=
                               schedule_progress_notifications
                                 ((scheduler st)(focus_complete uid (session_id info) \<mapsto>
                                    \<lparr> run_date = now + minutes remaining_minutes,
                                      func = CompleteFocusSession uid \<rparr>))
                                 uid remaining_minutes (session_id info) now \<rparr>
                    else st\<lparr> focus_sessions := db1 \<rparr>))))"

definition timer_cancel_session :: "FocusTimer \<Rightarrow> nat \<Rightarrow> datetime \<Rightarrow> bool \<times> FocusTimer" where
  \<comment> \<open>\<^verbatim>\<open>FocusTimer.cancel_session\<close>\<close>
  "timer_cancel_session st uid now =
     (case active_sessions st uid of
        None \<Rightarrow> (False, st)
      | Some info \<Rightarrow>
          (case cancel_session (focus_sessions st) (session_id info) now of
             (None, db1) \<Rightarrow> (False, st\<lparr> focus_sessions := db1 \<rparr>)
           | (Some session, db1) \<Rightarrow>
               (True,
                st\<lparr> focus_sessions := db1,
                    scheduler :=
                      remove_progress_notifications
                        ((scheduler st)(focus_complete uid (session_id info) := None))
                        uid (session_id info),
                    active_sessions := (active_sessions st)(uid := None) \<rparr>)))"

definition start_break ::
  "FocusTimer \<Rightarrow> nat \<Rightarrow> FocusSessionType \<Rightarrow> int \<Rightarrow> datetime \<Rightarrow> datetime \<Rightarrow> FocusTimer" where
  \<comment> \<open>the common body of \<^verbatim>\<open>_start_short_break\<close> and \<^verbatim>\<open>_start_long_break\<close>\<close>
  "start_break st uid stype duration now utcnow =
     (case create_focus_session (focus_sessions st) uid stype duration True now utcnow of
        (created, db1) \<Rightarrow>
          (case start_session db1 (fs_id created) now of
             (None, db2) \<Rightarrow> st\<lparr> focus_sessions := db2 \<rparr>
           | (Some session, db2) \<Rightarrow>
               st\<lparr> focus_sessions := db2,
                   active_sessions := (active_sessions st)(uid \<mapsto>
                     \<lparr> session_id = fs_id session, start_time = now,
                       duration_minutes = duration, info_session_type = stype,
                       sessions_completed = 0 \<rparr>),
                   scheduler := (scheduler st)(break_complete uid (fs_id session) \<mapsto>
                     \<lparr> run_date = now + minutes duration,
                       func = CompleteBreakSession uid \<rparr>) \<rparr>))"

definition start_short_break :: "FocusTimer \<Rightarrow> nat \<Rightarrow> datetime \<Rightarrow> datetime \<Rightarrow> FocusTimer" where
  "start_short_break st uid now utcnow =
     start_break st uid SHORT_BREAK (short_break_duration st) now utcnow"

definition start_long_break :: "FocusTimer \<Rightarrow> nat \<Rightarrow> datetime \<Rightarrow> datetime \<Rightarrow> FocusTimer" where
  "start_long_break st uid now utcnow =
     start_break st uid LONG_BREAK (long_break_duration st) now utcnow"

text \<open>
  \<^verbatim>\<open>_complete_focus_session\<close>, the callback of the completion job. The notifications
  it sends catch their own exceptions and change nothing below. A zero
  \<^verbatim>\<open>sessions_before_long_break\<close> raises in the modulo; the handler logs and returns.
\<close>

definition complete_focus_session :: "FocusTimer \<Rightarrow> nat \<Rightarrow> datetime \<Rightarrow> datetime \<Rightarrow> FocusTimer" where
  "complete_focus_session st uid now utcnow =
     (case active_sessions st uid of
        None \<Rightarrow> st
      | Some info \<Rightarrow>
          (case complete_session (focus_sessions st) (session_id info) now of
             (None, db1) \<Rightarrow> st\<lparr> focus_sessions := db1 \<rparr>
           | (Some session, db1) \<Rightarrow>
               (let info' = info\<lparr> sessions_completed := sessions_completed info + 1 \<rparr>;
                    st1 = st\<lparr> focus_sessions := db1,
                              active_sessions := (active_sessions st)(uid \<mapsto> info') \<rparr>
                in if sessions_before_long_break st1 = 0 then st1
                   else (let st2 =
                               (if sessions_completed info' mod sessions_before_long_break st1 = 0
                                then start_long_break st1 uid now utcnow
                                else start_short_break st1 uid now utcnow)
                         in st2\<lparr> active_sessions := (active_sessions st2)(uid := None) \<rparr>))))"

definition complete_break_session :: "FocusTimer \<Rightarrow> nat \<Rightarrow> datetime \<Rightarrow> FocusTimer" where
  "complete_break_session st uid now =
     (case active_sessions st uid of
        None \<Rightarrow> st
      | Some info \<Rightarrow>
          (case complete_session (focus_sessions st) (session_id info) now of
             (None, db1) \<Rightarrow> st\<lparr> focus_sessions := db1 \<rparr>
           | (Some session, db1) \<Rightarrow>
               st\<lparr> focus_sessions := db1, active_sessions := (active_sessions st)(uid := None) \<rparr>))"

definition new_timer :: FocusTimer where
  \<comment> \<open>\<^verbatim>\<open>FocusTimer.__init__\<close> over an empty table\<close>
  "new_timer =
     \<lparr> focus_sessions = [], active_sessions = Map.empty, scheduler = Map.empty,
       short_break_duration = 5, long_break_duration = 15,
       sessions_before_long_break = 4 \<rparr>"

section \<open>Reminders: the stored record (database/models/reminder.py)\<close>

datatype ReminderType =
  DAILY | WEEKLY | CUSTOM | DETOX_REMINDER | FOCUS_REMINDER | BREAK_REMINDER | QUIET_HOURS

text \<open>
  \<^verbatim>\<open>ReminderStatus\<close>; its members carry the prefix \<open>R_\<close> because \<^verbatim>\<open>ACTIVE\<close> and
  \<^verbatim>\<open>CANCELLED\<close> are members of \<^verbatim>\<open>FocusSessionStatus\<close> too.
\<close>

datatype ReminderStatus = R_ACTIVE | R_SENT | R_CANCELLED | R_EXPIRED | R_FAILED

text \<open>
  \<open>rem_id\<close>, \<open>rem_user_id\<close> and \<open>rem_status\<close> are the columns \<^verbatim>\<open>id\<close>, \<^verbatim>\<open>user_id\<close> and
  \<^verbatim>\<open>status\<close>. \<^verbatim>\<open>reminder_time\<close> is an hour and a minute. \<^verbatim>\<open>created_at\<close> and
  \<^verbatim>\<open>updated_at\<close> are kept by column defaults, not by the code below, and are left out.
\<close>

record Reminder =
  rem_id :: nat
  rem_user_id :: nat
  title :: string
  message :: "string option"
  reminder_type :: ReminderType
  rem_status :: ReminderStatus
  scheduled_time :: datetime
  reminder_time :: "(nat \<times> nat) option"
  repeat_days :: "string option"
  repeat_interval :: "int option"
  sent_at :: "datetime option"
  sent_count :: int
  failed_at :: "datetime option"
  failed_count :: int
  max_send_count :: "int option"
  is_recurring :: bool
  is_enabled :: bool
  priority :: int
  extra_data :: "string option"
  action_url :: "string option"
  expires_at :: "datetime option"

definition is_active :: "Reminder \<Rightarrow> bool" where
  "is_active r = (rem_status r = R_ACTIVE \<and> is_enabled r)"

section \<open>Reminders: CRUD (database/crud/reminder.py)\<close>

type_synonym reminder_db = "Reminder list"

definition get_reminder :: "reminder_db \<Rightarrow> nat \<Rightarrow> Reminder option" where
  "get_reminder rs rid = find (\<lambda>r. rem_id r = rid) rs"

definition commit_reminder :: "reminder_db \<Rightarrow> Reminder \<Rightarrow> reminder_db" where
  "commit_reminder rs r = map (\<lambda>x. if rem_id x = rem_id r then r else x) rs"

definition new_reminder_id :: "reminder_db \<Rightarrow> nat" where
  "new_reminder_id rs = Suc (fold max (map rem_id rs) 0)"

definition mark_as_sent :: "reminder_db \<Rightarrow> nat \<Rightarrow> datetime \<Rightarrow> reminder_db" where
  "mark_as_sent rs rid now =
     (case get_reminder rs rid of
        None \<Rightarrow> rs
      | Some reminder \<Rightarrow>
          commit_reminder rs
            (reminder\<lparr> rem_status := R_SENT, sent_at := Some now,
                        sent_count := sent_count reminder + 1 \<rparr>))"

definition mark_as_failed :: "reminder_db \<Rightarrow> nat \<Rightarrow> datetime \<Rightarrow> reminder_db" where
  "mark_as_failed rs rid now =
     (case get_reminder rs rid of
        None \<Rightarrow> rs
      | Some reminder \<Rightarrow>
          commit_reminder rs
            (reminder\<lparr> rem_status := R_FAILED, failed_at := Some now,
                        failed_count := failed_count reminder + 1 \<rparr>))"

section \<open>The reminder scheduler (core/reminder_scheduler.py)\<close>

text \<open>
  What a call of \<^verbatim>\<open>TelegramBot.send_message\<close> does: it returns the sent message,
  it returns \<^verbatim>\<open>None\<close> (chat not found, bot blocked, forbidden: caught inside), or it
  raises (any other error).
\<close>

datatype delivery = Delivered | ReturnsNone | Raises

datatype trigger =
    IntervalTrigger int datetime "datetime option"
  | CronTrigger_daily nat nat
  | CronTrigger_weekly string nat nat
  | DateTrigger datetime

text \<open>
  The job of reminder \<open>n\<close> has the id \<^verbatim>\<open>reminder_{n}\<close>: the job store is a map from
  reminder ids to triggers. \<open>users\<close> gives the \<^verbatim>\<open>telegram_id\<close> of each user row.
  \<open>outbox\<close> lists, newest last, the chat and the reminder of every message Telegram
  accepted.
\<close>

record ReminderScheduler =
  reminders :: reminder_db
  users :: "nat \<rightharpoonup> int"
  jobs :: "nat \<rightharpoonup> trigger"
  outbox :: "(int \<times> nat) list"

definition recurring_with_interval :: "Reminder \<Rightarrow> bool" where
  \<comment> \<open>\<^verbatim>\<open>reminder.is_recurring and reminder.repeat_interval\<close>\<close>
  "recurring_with_interval r = (is_recurring r \<and> truthy (repeat_interval r))"

text \<open>
  \<^verbatim>\<open>_schedule_reminder\<close>. \<open>cron_days\<close> stands for \<^verbatim>\<open>','.join(json.loads(repeat_days))\<close>:
  the day-of-week expression, \<open>None\<close> where parsing, joining or the trigger raises (the
  source then falls back to a date trigger). An empty \<^verbatim>\<open>repeat_days\<close> text is false.
\<close>

definition schedule_reminder ::
  "(string \<Rightarrow> string option) \<Rightarrow> ReminderScheduler \<Rightarrow> Reminder \<Rightarrow> ReminderScheduler" where
  "schedule_reminder cron_days st reminder =
     (let trigger =
        (if recurring_with_interval reminder
         then (case repeat_interval reminder of
                 Some n \<Rightarrow> IntervalTrigger n (scheduled_time reminder) (expires_at reminder)
               | None \<Rightarrow> DateTrigger (scheduled_time reminder))
         else (case (reminder_type reminder, reminder_time reminder, repeat_days reminder) of
                 (DAILY, Some (h, m), _) \<Rightarrow> CronTrigger_daily h m
               | (WEEKLY, _, Some days) \<Rightarrow>
                   (if days = [] then DateTrigger (scheduled_time reminder)
                    else (case cron_days days of
                            Some expr \<Rightarrow>
                              CronTrigger_weekly expr (hour_of (scheduled_time reminder))
                                (minute_of (scheduled_time reminder))
                          | None \<Rightarrow> DateTrigger (scheduled_time reminder)))
               | _ \<Rightarrow> DateTrigger (scheduled_time reminder)))
      in st\<lparr> jobs := (jobs st)(rem_id reminder \<mapsto> trigger) \<rparr>)"

text \<open>
  \<^verbatim>\<open>_send_reminder\<close> with \<^verbatim>\<open>_send_telegram_reminder\<close> inlined: \<open>d\<close> is what the
  one call of \<^verbatim>\<open>send_message\<close> does.
\<close>

definition send_reminder ::
  "ReminderScheduler \<Rightarrow> Reminder \<Rightarrow> delivery \<Rightarrow> datetime \<Rightarrow> ReminderScheduler" where
  "send_reminder st reminder d now =
     (case users st (rem_user_id reminder) of
        None \<Rightarrow> st
      | Some telegram_id \<Rightarrow>
          if telegram_id = 0 then st
          else (case d of
                  Raises \<Rightarrow>
                    st\<lparr> reminders := mark_as_failed (reminders st) (rem_id reminder) now \<rparr>
                | ReturnsNone \<Rightarrow>
                    st\<lparr> reminders := mark_as_sent (reminders st) (rem_id reminder) now \<rparr>
                | Delivered \<Rightarrow>
                    st\<lparr> outbox := outbox st @ [(telegram_id, rem_id reminder)],
                        reminders := mark_as_sent (reminders st) (rem_id reminder) now \<rparr>))"

definition schedule_next_recurring_reminder ::
  "(string \<Rightarrow> string option) \<Rightarrow> ReminderScheduler \<Rightarrow> Reminder \<Rightarrow> datetime
     \<Rightarrow> ReminderScheduler" where
  "schedule_next_recurring_reminder cron_days st reminder now =
     (case repeat_interval reminder of
        None \<Rightarrow> st
      | Some n \<Rightarrow>
          (let next_time = now + minutes n;
               new_reminder =
                 \<lparr> rem_id = new_reminder_id (reminders st),
                   rem_user_id = rem_user_id reminder, title = title reminder,
                   message = message reminder, reminder_type = reminder_type reminder,
                   rem_status = R_ACTIVE, scheduled_time = next_time,
                   reminder_time = reminder_time reminder,
                   repeat_days = repeat_days reminder,
                   repeat_interval = repeat_interval reminder,
                   sent_at = None, sent_count = 0, failed_at = None, failed_count = 0,
                   max_send_count = max_send_count reminder,
                   is_recurring = is_recurring reminder, is_enabled = True,
                   priority = priority reminder, extra_data = extra_data reminder,
                   action_url = action_url reminder, expires_at = expires_at reminder \<rparr>
           in schedule_reminder cron_days
                (st\<lparr> reminders := reminders st @ [new_reminder] \<rparr>) new_reminder))"

text \<open>
  \<^verbatim>\<open>_send_reminder_job\<close>, the callback of a reminder's job. The columns it reads
  after the send are not written by \<^verbatim>\<open>mark_as_sent\<close> or \<^verbatim>\<open>mark_as_failed\<close>.
\<close>

definition send_reminder_job ::
  "(string \<Rightarrow> string option) \<Rightarrow> ReminderScheduler \<Rightarrow> nat \<Rightarrow> delivery \<Rightarrow> datetime
     \<Rightarrow> ReminderScheduler" where
  "send_reminder_job cron_days st rid d now =
     (case get_reminder (reminders st) rid of
        None \<Rightarrow> st
      | Some reminder \<Rightarrow>
          if is_active reminder
          then (let st1 = send_reminder st reminder d now
                in if recurring_with_interval reminder
                   then schedule_next_recurring_reminder cron_days st1 reminder now
                   else st1)
          else st)"

section \<open>The periodic tasks (tasks/reminder_tasks.py)\<close>

definition due :: "Reminder \<Rightarrow> datetime \<Rightarrow> bool" where
  \<comment> \<open>the filter of the query in \<^verbatim>\<open>check_due_reminders\<close>\<close>
  "due r utcnow =
     (rem_status r = R_ACTIVE \<and> is_enabled r \<and> scheduled_time r \<le> utcnow
      \<and> (case expires_at r of None \<Rightarrow> True | Some e \<Rightarrow> utcnow < e)
      \<and> (case max_send_count r of None \<Rightarrow> True | Some m \<Rightarrow> sent_count r < m))"

definition process_due :: "Reminder \<Rightarrow> datetime \<Rightarrow> Reminder" where
  \<comment> \<open>the body of the loop, for one due reminder\<close>
  "process_due reminder utcnow =
     (let r1 = reminder\<lparr> rem_status := R_SENT, sent_at := Some utcnow,
                          sent_count := sent_count reminder + 1 \<rparr>
      in if recurring_with_interval r1
         then (case repeat_interval r1 of
                 Some n \<Rightarrow> r1\<lparr> scheduled_time := utcnow + minutes n, rem_status := R_ACTIVE \<rparr>
               | None \<Rightarrow> r1)
         else r1)"

text \<open>
  \<^verbatim>\<open>check_due_reminders\<close> returns the table it leaves and the ids it handed to
  \<^verbatim>\<open>send_telegram_reminder.delay\<close>, in order. The task is queued before the row is
  written and its result is never read here.
\<close>

definition check_due_reminders :: "reminder_db \<Rightarrow> datetime \<Rightarrow> reminder_db \<times> nat list" where
  "check_due_reminders rs utcnow =
     (map (\<lambda>r. if due r utcnow then process_due r utcnow else r) rs,
      map rem_id (filter (\<lambda>r. due r utcnow) rs))"

datatype task_result = task_success nat | task_error string

text \<open>
  \<^verbatim>\<open>send_telegram_reminder\<close> calls \<^verbatim>\<open>telegram.Bot.send_message\<close> directly, where
  every failure raises; the task catches it. It writes no row: its result is all it
  leaves.
\<close>

definition send_telegram_reminder ::
  "reminder_db \<Rightarrow> (nat \<rightharpoonup> int) \<Rightarrow> nat \<Rightarrow> delivery \<Rightarrow> task_result" where
  "send_telegram_reminder rs us rid d =
     (case get_reminder rs rid of
        None \<Rightarrow> task_error ''Reminder not found''
      | Some reminder \<Rightarrow>
          (case us (rem_user_id reminder) of
             None \<Rightarrow> task_error ''User not found''
           | Some telegram_id \<Rightarrow>
               (case d of
                  Delivered \<Rightarrow> task_success rid
                | _ \<Rightarrow> task_error ''Failed to send message'')))"

section \<open>Example states\<close>

text \<open>
  A focus session of user 7, 25 minutes, started at instant 0 and still running, in a
  timer that has no cache entry for the user (as after a restart before recovery, or
  after a blocked progress ping dropped the entry).
\<close>

definition running_session :: FocusSession where
  "running_session =
     \<lparr> fs_id = 1, user_id = 7, session_type = FOCUS, status = ACTIVE,
       planned_duration = 25, actual_duration = None, paused_duration = 0,
       planned_start = 0, actual_start = Some 0, actual_end = None,
       last_pause_start = None, completion_rate = None, auto_start_next = True,
       updated_at = 0 \<rparr>"

definition uncached_timer :: FocusTimer where
  "uncached_timer = new_timer\<lparr> focus_sessions := [running_session] \<rparr>"

text \<open>
  The scenario of the specification: a new timer, user 7 starts a 25 minute session at
  instant 0, pauses it after 10 minutes and resumes it 5 minutes later.
\<close>

definition busy_timer :: FocusTimer where
  "busy_timer = snd (start_focus_session new_timer 7 25 True 0 0)"

definition paused_timer :: FocusTimer where
  "paused_timer = snd (timer_pause_session busy_timer 7 (minutes 10))"

definition resumed_timer :: FocusTimer where
  "resumed_timer = snd (timer_resume_session paused_timer 7 (minutes 15))"

definition paused_session :: FocusSession where
  "paused_session =
     running_session\<lparr> status := PAUSED, last_pause_start := Some (minutes 10),
                       updated_at := minutes 10 \<rparr>"

definition cancelled_session :: FocusSession where
  "cancelled_session =
     running_session\<lparr> status := CANCELLED, actual_end := Some (minutes 10),
                       updated_at := minutes 10 \<rparr>"

text \<open>
  User 7 has completed three 25 minute FOCUS sessions, starts the fourth at minute 90,
  and its completion job fires 25 minutes later.
\<close>

definition finished_session :: "nat \<Rightarrow> datetime \<Rightarrow> FocusSession" where
  "finished_session n t0 =
     \<lparr> fs_id = n, user_id = 7, session_type = FOCUS, status = COMPLETED,
       planned_duration = 25, actual_duration = Some 25, paused_duration = 0,
       planned_start = t0, actual_start = Some t0, actual_end = Some (t0 + minutes 25),
       last_pause_start = None, completion_rate = Some 100, auto_start_next = True,
       updated_at = t0 + minutes 25 \<rparr>"

definition three_done_timer :: FocusTimer where
  "three_done_timer =
     new_timer\<lparr> focus_sessions :=
       [finished_session 1 0, finished_session 2 (minutes 30),
        finished_session 3 (minutes 60)] \<rparr>"

definition fourth_started :: FocusTimer where
  "fourth_started =
     snd (start_focus_session three_done_timer 7 25 True (minutes 90) (minutes 90))"

definition fourth_completed :: FocusTimer where
  "fourth_completed = complete_focus_session fourth_started 7 (minutes 115) (minutes 115)"

text \<open>
  Reminders of user 7 (chat 4242): one repeating every 60 minutes that expires after
  10 minutes, the same as a one-off reminder, and the one-off reminder after it was sent.
\<close>

definition water_reminder :: Reminder where
  "water_reminder =
     \<lparr> rem_id = 1, rem_user_id = 7, title = ''Water'', message = None,
       reminder_type = CUSTOM, rem_status = R_ACTIVE, scheduled_time = 0,
       reminder_time = None, repeat_days = None, repeat_interval = Some 60,
       sent_at = None, sent_count = 0, failed_at = None, failed_count = 0,
       max_send_count = None, is_recurring = True, is_enabled = True, priority = 1,
       extra_data = None, action_url = None, expires_at = Some (minutes 10) \<rparr>"

definition once_reminder :: Reminder where
  "once_reminder =
     water_reminder\<lparr> is_recurring := False, repeat_interval := None, expires_at := None \<rparr>"

definition sent_reminder :: Reminder where
  "sent_reminder =
     once_reminder\<lparr> rem_status := R_SENT, sent_at := Some (minutes 1), sent_count := 1 \<rparr>"

definition scheduler_with :: "Reminder \<Rightarrow> ReminderScheduler" where
  "scheduler_with r =
     schedule_reminder Some
       \<lparr> reminders = [r], users = [7 \<mapsto> 4242], jobs = Map.empty, outbox = [] \<rparr> r"

text \<open>
  A table of two rows: the one-off reminder, and the repeating one under the id 2.
\<close>

definition two_reminders :: reminder_db where
  "two_reminders = [once_reminder, water_reminder\<lparr> rem_id := 2 \<rparr>]"

section \<open>Lookup after a write\<close>

lemma find_id_Some: "find (\<lambda>s. f s = k) xs = Some s \<Longrightarrow> f s = k"
  by (induction xs) (auto split: if_splits)

lemma get_session_id: "get_session db sid = Some s \<Longrightarrow> fs_id s = sid"
  unfolding get_session_def by (rule find_id_Some)

lemma get_session_commit:
  "get_session db sid = Some s \<Longrightarrow> fs_id s' = sid
     \<Longrightarrow> get_session (commit_session db s') sid = Some s'"
  unfolding get_session_def commit_session_def
  by (induction db) (auto split: if_splits)

lemma get_reminder_id: "get_reminder rs rid = Some r \<Longrightarrow> rem_id r = rid"
  unfolding get_reminder_def by (rule find_id_Some)

lemma get_reminder_commit:
  "get_reminder rs rid = Some r \<Longrightarrow> rem_id r' = rid
     \<Longrightarrow> get_reminder (commit_reminder rs r') rid = Some r'"
  unfolding get_reminder_def commit_reminder_def
  by (induction rs) (auto split: if_splits)

lemma get_reminder_append:
  "get_reminder rs rid = Some r \<Longrightarrow> get_reminder (rs @ ys) rid = Some r"
  unfolding get_reminder_def by (induction rs) (auto split: if_splits)

section \<open>Progress jobs leave the completion job alone\<close>

lemma range_step_25: "range_step 5 25 = [5, 10, 15, 20]"
  by (simp add: range_step_def upt_rec)

lemma range_step_10: "range_step 5 10 = [5]"
  by (simp add: range_step_def upt_rec)

lemma fold_progress_other:
  "fold (\<lambda>i m. m(progress uid sid i \<mapsto> g i)) xs js (focus_complete u s) = js (focus_complete u s)"
  by (induction xs arbitrary: js) simp_all

lemma schedule_progress_keeps_completion:
  "schedule_progress_notifications js uid duration sid now (focus_complete u s)
     = js (focus_complete u s)"
  unfolding schedule_progress_notifications_def by (rule fold_progress_other)

section \<open>The scenario: start, pause after 10 minutes, resume 5 minutes later\<close>

lemma busy_sessions: "focus_sessions busy_timer = [running_session]"
  by (simp add: busy_timer_def start_focus_session_def new_timer_def get_active_session_def
        create_focus_session_def start_session_def get_session_def commit_session_def
        new_session_id_def running_session_def Let_def)

lemma busy_cache:
  "active_sessions busy_timer 7 =
     Some \<lparr> session_id = 1, start_time = 0, duration_minutes = 25,
            info_session_type = FOCUS, sessions_completed = 0 \<rparr>"
  by (simp add: busy_timer_def start_focus_session_def new_timer_def get_active_session_def
        create_focus_session_def start_session_def get_session_def commit_session_def
        new_session_id_def running_session_def Let_def)

lemma busy_job:
  "scheduler busy_timer (focus_complete 7 1) =
     Some \<lparr> run_date = minutes 25, func = CompleteFocusSession 7 \<rparr>"
  by (simp add: busy_timer_def start_focus_session_def new_timer_def get_active_session_def
        create_focus_session_def start_session_def get_session_def commit_session_def
        new_session_id_def Let_def schedule_progress_keeps_completion)

lemma paused_sessions: "focus_sessions paused_timer = [paused_session]"
  by (simp add: paused_timer_def timer_pause_session_def busy_cache busy_sessions
        pause_session_def get_session_def commit_session_def running_session_def
        paused_session_def Let_def)

lemma paused_cache: "active_sessions paused_timer 7 = active_sessions busy_timer 7"
  by (simp add: paused_timer_def timer_pause_session_def busy_cache busy_sessions
        pause_session_def get_session_def commit_session_def running_session_def Let_def)

lemma paused_job: "scheduler paused_timer (focus_complete 7 1) = None"
  by (simp add: paused_timer_def timer_pause_session_def busy_cache busy_sessions
        pause_session_def get_session_def commit_session_def running_session_def Let_def
        remove_progress_notifications_def)

text \<open>
  In general: what \<^verbatim>\<open>resume_session\<close> of the timer schedules depends on the clock,
  on the cached start time and on the cached duration only. The pause that the stored
  record has just accumulated in \<open>paused_duration\<close> is not read.
\<close>

lemma resume_completion_time:
  assumes "active_sessions st uid = Some info"
      and "resume_session (focus_sessions st) (session_id info) now = (Some s, db1)"
      and "0 < duration_minutes info - total_minutes (now - start_time info)"
  shows "scheduler (snd (timer_resume_session st uid now)) (focus_complete uid (session_id info))
           = Some \<lparr> run_date = now + minutes (duration_minutes info
                                               - total_minutes (now - start_time info)),
                    func = CompleteFocusSession uid \<rparr>"
  using assms
  by (simp add: timer_resume_session_def Let_def schedule_progress_keeps_completion max_def)

text \<open>
  Claim C1 says that resume reschedules the completion job for planned duration minus
  the active minutes elapsed, paused time excluded, so that a 25 minute session started
  at T0, paused at T0+10m for 5 minutes and resumed, completes at T0+30m. On that input
  the code computes the remaining time from the wall clock since the start: the stored
  session is ACTIVE again with 5 minutes of \<open>paused_duration\<close>, and the completion job is
  set for T0+25m, its run date before the pause.
\<close>

theorem resume_ignores_paused_time:
  "scheduler busy_timer (focus_complete 7 1)
     = Some \<lparr> run_date = minutes 25, func = CompleteFocusSession 7 \<rparr>
   \<and> scheduler paused_timer (focus_complete 7 1) = None
   \<and> timer_resume_session paused_timer 7 (minutes 15) = (True, resumed_timer)
   \<and> focus_sessions resumed_timer
        = [running_session\<lparr> paused_duration := 5, updated_at := minutes 15 \<rparr>]
   \<and> scheduler resumed_timer (focus_complete 7 1)
        = Some \<lparr> run_date = minutes 25, func = CompleteFocusSession 7 \<rparr>
   \<and> minutes 25 < minutes 30"
proof -
  have r: "timer_resume_session paused_timer 7 (minutes 15) = (True, resumed_timer)"
    by (simp add: resumed_timer_def timer_resume_session_def paused_cache busy_cache
          paused_sessions resume_session_def get_session_def paused_session_def
          running_session_def Let_def)
  have s: "focus_sessions resumed_timer
             = [running_session\<lparr> paused_duration := 5, updated_at := minutes 15 \<rparr>]"
    by (simp add: resumed_timer_def timer_resume_session_def paused_cache busy_cache
          paused_sessions resume_session_def get_session_def commit_session_def
          paused_session_def running_session_def total_minutes_def minutes_def Let_def)
  have j: "scheduler resumed_timer (focus_complete 7 1)
             = Some \<lparr> run_date = minutes 25, func = CompleteFocusSession 7 \<rparr>"
    by (simp add: resumed_timer_def timer_resume_session_def paused_cache busy_cache
          paused_sessions resume_session_def get_session_def commit_session_def
          paused_session_def running_session_def total_minutes_def minutes_def Let_def
          schedule_progress_keeps_completion)
  have m: "minutes 25 < minutes 30"
    by (simp add: minutes_def)
  show ?thesis
    using busy_job paused_job r s j m by blast
qed

section \<open>The break after a completed focus session\<close>

lemma fourth_started_sessions:
  "focus_sessions fourth_started =
     [finished_session 1 0, finished_session 2 (minutes 30), finished_session 3 (minutes 60),
      \<lparr> fs_id = 4, user_id = 7, session_type = FOCUS, status = ACTIVE,
        planned_duration = 25, actual_duration = None, paused_duration = 0,
        planned_start = minutes 90, actual_start = Some (minutes 90), actual_end = None,
        last_pause_start = None, completion_rate = None, auto_start_next = True,
        updated_at = minutes 90 \<rparr>]"
  by (simp add: fourth_started_def three_done_timer_def new_timer_def start_focus_session_def
       get_active_session_def finished_session_def create_focus_session_def new_session_id_def
       start_session_def get_session_def commit_session_def Let_def)

lemma fourth_started_cache:
  "active_sessions fourth_started 7 =
     Some \<lparr> session_id = 4, start_time = minutes 90, duration_minutes = 25,
            info_session_type = FOCUS, sessions_completed = 0 \<rparr>"
  by (simp add: fourth_started_def three_done_timer_def new_timer_def start_focus_session_def
       get_active_session_def finished_session_def create_focus_session_def new_session_id_def
       start_session_def get_session_def commit_session_def Let_def)

lemma fourth_started_settings:
  "sessions_before_long_break fourth_started = 4 \<and> short_break_duration fourth_started = 5"
  by (simp add: fourth_started_def three_done_timer_def new_timer_def start_focus_session_def
       get_active_session_def finished_session_def create_focus_session_def new_session_id_def
       start_session_def get_session_def commit_session_def Let_def)

text \<open>
  The counter that decides between the breaks lives in the cache entry, and every
  entry is written with the counter at 0: a session that \<^verbatim>\<open>start_focus_session\<close>
  started is completed with the counter going from 0 to 1, whatever was completed before.
\<close>

lemma cache_entry_of_start:
  assumes "start_focus_session st uid duration auto now utcnow = (Some s, st')"
      and "get_active_session (focus_sessions st) uid = None"
  shows "\<exists>info. active_sessions st' uid = Some info \<and> sessions_completed info = 0
           \<and> session_id info = fs_id s"
  using assms
  by (auto simp: start_focus_session_def split: prod.splits option.splits)

lemma counter_zero_never_long_break:
  assumes "active_sessions st uid = Some info" and "sessions_completed info = 0"
      and "sessions_before_long_break st = 4"
      and "complete_session (focus_sessions st) (session_id info) now = (Some s, db1)"
  shows "complete_focus_session st uid now utcnow =
           (let st2 = start_short_break
                        (st\<lparr> focus_sessions := db1,
                            active_sessions := (active_sessions st)(uid \<mapsto>
                              info\<lparr> sessions_completed := 1 \<rparr>) \<rparr>) uid now utcnow
            in st2\<lparr> active_sessions := (active_sessions st2)(uid := None) \<rparr>)"
  using assms by (simp add: complete_focus_session_def Let_def)

text \<open>
  The same for every state: a key one above the largest is new, so the session that
  \<^verbatim>\<open>start_focus_session\<close> creates is appended and found again, and its completion
  appends a SHORT_BREAK. With the default setting no FOCUS session that the timer
  started is ever followed by a LONG_BREAK.
\<close>

lemma fold_max_ge: "(a::nat) \<le> fold max xs a \<and> (\<forall>x\<in>set xs. x \<le> fold max xs a)"
proof (induction xs arbitrary: a)
  case Nil
  then show ?case by simp
next
  case (Cons y ys)
  have "max y a \<le> fold max ys (max y a)" using Cons.IH by blast
  then show ?case using Cons.IH [of "max y a"] by auto
qed

lemma new_session_id_fresh: "s \<in> set db \<Longrightarrow> fs_id s < new_session_id db"
  using fold_max_ge [of 0 "map fs_id db"] by (auto simp: new_session_id_def less_Suc_eq_le)

lemma find_append_None:
  "find P xs = None \<Longrightarrow> find P (xs @ ys) = find P ys"
  by (induction xs) (auto split: if_splits)

lemma new_session_id_unused: "s \<in> set db \<Longrightarrow> fs_id s \<noteq> new_session_id db"
  using new_session_id_fresh [of s db] by simp

lemma get_session_fresh:
  assumes "fs_id s = new_session_id db"
  shows "get_session (db @ [s]) (new_session_id db) = Some s"
proof -
  have "find (\<lambda>r. fs_id r = new_session_id db) db = None"
    by (auto simp: find_None_iff dest: new_session_id_unused)
  then show ?thesis using assms by (simp add: get_session_def find_append_None)
qed

lemma commit_session_fresh:
  assumes "fs_id s0 = new_session_id db" and "fs_id s = new_session_id db"
  shows "commit_session (db @ [s0]) s = db @ [s]"
proof -
  have "map (\<lambda>r. if fs_id r = fs_id s then s else r) db = db"
    using assms(2) by (intro map_idI) (auto dest: new_session_id_unused)
  then show ?thesis using assms by (simp add: commit_session_def)
qed

lemma start_break_appends:
  "\<exists>b. focus_sessions (start_break st uid stype duration now utcnow) = focus_sessions st @ [b]
        \<and> session_type b = stype \<and> status b = ACTIVE \<and> user_id b = uid
        \<and> planned_duration b = duration"
  by (simp add: start_break_def create_focus_session_def start_session_def Let_def
        get_session_fresh commit_session_fresh)

lemma start_focus_session_appends:
  assumes "get_active_session (focus_sessions st) uid = None"
  shows "\<exists>s. start_focus_session st uid duration auto now utcnow
              = (Some s,
                 st\<lparr> focus_sessions := focus_sessions st @ [s],
                     active_sessions := (active_sessions st)(uid \<mapsto>
                       \<lparr> session_id = fs_id s, start_time = now,
                         duration_minutes = duration, info_session_type = FOCUS,
                         sessions_completed = 0 \<rparr>),
                     scheduler :=
                       schedule_progress_notifications
                         ((scheduler st)(focus_complete uid (fs_id s) \<mapsto>
                            \<lparr> run_date = now + minutes duration,
                              func = CompleteFocusSession uid \<rparr>))
                         uid duration (fs_id s) now \<rparr>)
           \<and> fs_id s = new_session_id (focus_sessions st)
           \<and> session_type s = FOCUS \<and> status s = ACTIVE"
  using assms
  by (simp add: start_focus_session_def create_focus_session_def start_session_def Let_def
        get_session_fresh commit_session_fresh)

lemma focus_session_is_followed_by_short_break:
  assumes "get_active_session (focus_sessions st) uid = None"
      and "sessions_before_long_break st = 4"
  shows "\<exists>c b. focus_sessions
                 (complete_focus_session
                    (snd (start_focus_session st uid duration auto t0 u0)) uid t1 u1)
               = focus_sessions st @ [c, b]
             \<and> session_type c = FOCUS \<and> status c = COMPLETED
             \<and> session_type b = SHORT_BREAK \<and> status b = ACTIVE"
proof -
  obtain s where s: "start_focus_session st uid duration auto t0 u0
              = (Some s,
                 st\<lparr> focus_sessions := focus_sessions st @ [s],
                     active_sessions := (active_sessions st)(uid \<mapsto>
                       \<lparr> session_id = fs_id s, start_time = t0,
                         duration_minutes = duration, info_session_type = FOCUS,
                         sessions_completed = 0 \<rparr>),
                     scheduler :=
                       schedule_progress_notifications
                         ((scheduler st)(focus_complete uid (fs_id s) \<mapsto>
                            \<lparr> run_date = t0 + minutes duration,
                              func = CompleteFocusSession uid \<rparr>))
                         uid duration (fs_id s) t0 \<rparr>)"
      and id: "fs_id s = new_session_id (focus_sessions st)"
      and ty: "session_type s = FOCUS" "status s = ACTIVE"
    using start_focus_session_appends [OF assms(1)] by blast
  define st1 where "st1 = snd (start_focus_session st uid duration auto t0 u0)"
  define info where "info = \<lparr> session_id = fs_id s, start_time = t0,
                         duration_minutes = duration, info_session_type = FOCUS,
                         sessions_completed = 0 \<rparr>"
  have f1: "focus_sessions st1 = focus_sessions st @ [s]"
    and a1: "active_sessions st1 uid = Some info"
    and n1: "sessions_before_long_break st1 = 4"
    using s assms(2) by (simp_all add: st1_def info_def)
  obtain c where c: "complete_session (focus_sessions st1) (session_id info) t1
                       = (Some c, focus_sessions st @ [c])"
      and cty: "session_type c = FOCUS" "status c = COMPLETED"
    using id ty f1
    by (cases "actual_start s")
       (auto simp: complete_session_def Let_def get_session_fresh commit_session_fresh info_def)
  have z: "sessions_completed info = 0" by (simp add: info_def)
  define st2 where "st2 = st1\<lparr> focus_sessions := focus_sessions st @ [c],
                              active_sessions := (active_sessions st1)(uid \<mapsto>
                                info\<lparr> sessions_completed := 1 \<rparr>) \<rparr>"
  have e: "focus_sessions (complete_focus_session st1 uid t1 u1)
             = focus_sessions (start_short_break st2 uid t1 u1)"
    using counter_zero_never_long_break [OF a1 z n1 c, of u1]
    by (simp add: Let_def st2_def)
  obtain b where b: "focus_sessions (start_short_break st2 uid t1 u1) = focus_sessions st2 @ [b]"
      and bty: "session_type b = SHORT_BREAK" "status b = ACTIVE"
    unfolding start_short_break_def using start_break_appends by blast
  have "focus_sessions (complete_focus_session st1 uid t1 u1) = focus_sessions st @ [c, b]"
    using e b by (simp add: st2_def)
  then show ?thesis
    using cty bty unfolding st1_def by blast
qed

text \<open>
  Claim C2 says that the completion of the fourth FOCUS session of a cycle starts a
  LONG_BREAK. With \<^verbatim>\<open>sessions_before_long_break = 4\<close> and three FOCUS sessions of the
  user completed, the code completes the fourth and starts a 5 minute SHORT_BREAK;
  it then deletes the cache entry it has just written for that break.
\<close>

theorem fourth_focus_session_gets_short_break:
  "sessions_before_long_break three_done_timer = 4
   \<and> map session_type (focus_sessions fourth_completed)
        = [FOCUS, FOCUS, FOCUS, FOCUS, SHORT_BREAK]
   \<and> map status (focus_sessions fourth_completed)
        = [COMPLETED, COMPLETED, COMPLETED, COMPLETED, ACTIVE]
   \<and> map planned_duration (focus_sessions fourth_completed) = [25, 25, 25, 25, 5]
   \<and> scheduler fourth_completed (break_complete 7 5)
        = Some \<lparr> run_date = minutes 120, func = CompleteBreakSession 7 \<rparr>
   \<and> active_sessions fourth_completed 7 = None"
  by (simp add: fourth_completed_def complete_focus_session_def fourth_started_cache
        fourth_started_sessions fourth_started_settings complete_session_def get_session_def
        commit_session_def finished_session_def Let_def start_short_break_def start_break_def
        create_focus_session_def new_session_id_def start_session_def three_done_timer_def
        new_timer_def minutes_def)

section \<open>Starting while a session is running\<close>

lemma find_first_match:
  assumes "x \<in> set xs" and "P x"
  shows "\<exists>a. find P xs = Some a \<and> a \<in> set xs \<and> P a"
  using assms by (induction xs) auto

lemma start_returns_found_session:
  assumes "get_active_session (focus_sessions st) uid = Some a"
  shows "start_focus_session st uid duration auto now utcnow = (Some a, st)"
  using assms by (simp add: start_focus_session_def)

text \<open>
  Claim C4, as amended. When the table holds a session of the user whose status is
  ACTIVE or PAUSED, \<^verbatim>\<open>start_focus_session\<close> does not fail: it returns a stored session
  of that user in status ACTIVE or PAUSED (the first one in the table) and leaves the
  whole state as it was, so no session record is created, no job is scheduled and the
  cache is not written.
\<close>

theorem start_with_active_or_paused_session:
  assumes "s \<in> set (focus_sessions st)" and "user_id s = uid"
      and "status s = ACTIVE \<or> status s = PAUSED"
  shows "\<exists>a. start_focus_session st uid duration auto now utcnow = (Some a, st)
            \<and> a \<in> set (focus_sessions st) \<and> user_id a = uid
            \<and> (status a = ACTIVE \<or> status a = PAUSED)"
proof -
  obtain a where a: "get_active_session (focus_sessions st) uid = Some a"
      and m: "a \<in> set (focus_sessions st)"
      and p: "user_id a = uid \<and> (status a = ACTIVE \<or> status a = PAUSED)"
    using find_first_match [OF assms(1),
            of "\<lambda>s. user_id s = uid \<and> (status s = ACTIVE \<or> status s = PAUSED)"] assms(2,3)
    unfolding get_active_session_def by blast
  have "start_focus_session st uid duration auto now utcnow = (Some a, st)"
    using a by (rule start_returns_found_session)
  then show ?thesis using m p by blast
qed

theorem start_with_active_or_paused_session_witness:
  "paused_session \<in> set (focus_sessions paused_timer) \<and> user_id paused_session = 7
   \<and> status paused_session = PAUSED
   \<and> start_focus_session paused_timer 7 15 False (minutes 12) (minutes 12)
        = (Some paused_session, paused_timer)
   \<and> running_session \<in> set (focus_sessions busy_timer) \<and> user_id running_session = 7
   \<and> status running_session = ACTIVE
   \<and> start_focus_session busy_timer 7 15 False (minutes 5) (minutes 5)
        = (Some running_session, busy_timer)"
proof -
  have m: "paused_session \<in> set (focus_sessions paused_timer)"
    by (simp add: paused_sessions)
  have u: "user_id paused_session = 7"
    by (simp add: paused_session_def running_session_def)
  have p: "status paused_session = PAUSED"
    by (simp add: paused_session_def)
  then have p': "status paused_session = ACTIVE \<or> status paused_session = PAUSED" by simp
  have m2: "running_session \<in> set (focus_sessions busy_timer)"
    by (simp add: busy_sessions)
  have u2: "user_id running_session = 7" and a2: "status running_session = ACTIVE"
    by (simp_all add: running_session_def)
  then have a2': "status running_session = ACTIVE \<or> status running_session = PAUSED" by simp
  have only: "\<And>a. a \<in> set (focus_sessions paused_timer) \<Longrightarrow> a = paused_session"
             "\<And>a. a \<in> set (focus_sessions busy_timer) \<Longrightarrow> a = running_session"
    by (simp_all add: paused_sessions busy_sessions)
  show ?thesis
    using start_with_active_or_paused_session [OF m u p', of 15 False "minutes 12" "minutes 12"]
          start_with_active_or_paused_session [OF m2 u2 a2', of 15 False "minutes 5" "minutes 5"]
          m u p m2 u2 a2 only
    by auto
qed

text \<open>
  The claim as stated fails: with a running session of user 7 in the table, a second
  start 3 minutes later returns a session, not a failure; and so does a start while
  the session is paused.
\<close>

theorem start_with_running_session_counterexample:
  "running_session \<in> set (focus_sessions busy_timer) \<and> user_id running_session = 7
   \<and> status running_session = ACTIVE
   \<and> start_focus_session busy_timer 7 25 True (minutes 3) (minutes 3)
        = (Some running_session, busy_timer)
   \<and> paused_session \<in> set (focus_sessions paused_timer) \<and> user_id paused_session = 7
   \<and> status paused_session = PAUSED
   \<and> start_focus_session paused_timer 7 25 True (minutes 12) (minutes 12)
        = (Some paused_session, paused_timer)
   \<and> fst (start_focus_session busy_timer 7 25 True (minutes 3) (minutes 3)) \<noteq> None
   \<and> fst (start_focus_session paused_timer 7 25 True (minutes 12) (minutes 12)) \<noteq> None"
  by (simp add: start_focus_session_def busy_sessions paused_sessions get_active_session_def
        running_session_def paused_session_def)

section \<open>Cancelled sessions\<close>

text \<open>
  Claim C5, as amended. For a stored session in status CANCELLED, \<^verbatim>\<open>start_session\<close>,
  \<^verbatim>\<open>pause_session\<close>, \<^verbatim>\<open>resume_session\<close> and \<^verbatim>\<open>complete_session\<close> return nothing and
  leave the table unchanged. \<^verbatim>\<open>cancel_session\<close> is accepted again: it returns the
  session with \<open>actual_end\<close> and \<open>updated_at\<close> overwritten by the current time and stores
  it; every other column keeps its value, and the status is still CANCELLED.
\<close>

theorem cancelled_is_terminal_but_for_cancel:
  assumes "get_session db sid = Some s" and "status s = CANCELLED"
  shows "start_session db sid now = (None, db)
       \<and> pause_session db sid now = (None, db)
       \<and> resume_session db sid now = (None, db)
       \<and> complete_session db sid now = (None, db)
       \<and> cancel_session db sid now =
           (Some (s\<lparr> actual_end := Some now, updated_at := now \<rparr>),
            commit_session db (s\<lparr> actual_end := Some now, updated_at := now \<rparr>))
       \<and> get_session (snd (cancel_session db sid now)) sid =
           Some (s\<lparr> actual_end := Some now, updated_at := now \<rparr>)
       \<and> status (s\<lparr> actual_end := Some now, updated_at := now \<rparr>) = CANCELLED"
proof -
  have eq: "s\<lparr> status := CANCELLED \<rparr> = s"
    using assms(2) by (cases s) simp
  have c: "cancel_session db sid now =
           (Some (s\<lparr> actual_end := Some now, updated_at := now \<rparr>),
            commit_session db (s\<lparr> actual_end := Some now, updated_at := now \<rparr>))"
    using assms by (simp add: cancel_session_def Let_def eq)
  have g: "get_session (snd (cancel_session db sid now)) sid =
           Some (s\<lparr> actual_end := Some now, updated_at := now \<rparr>)"
    using get_session_commit [OF assms(1), of "s\<lparr> actual_end := Some now, updated_at := now \<rparr>"]
          get_session_id [OF assms(1)] c by simp
  show ?thesis
    using assms c g
    by (simp add: start_session_def pause_session_def resume_session_def complete_session_def)
qed

theorem cancelled_is_terminal_but_for_cancel_witness:
  "get_session [cancelled_session] 1 = Some cancelled_session
   \<and> status cancelled_session = CANCELLED
   \<and> start_session [cancelled_session] 1 (minutes 20) = (None, [cancelled_session])
   \<and> pause_session [cancelled_session] 1 (minutes 20) = (None, [cancelled_session])
   \<and> resume_session [cancelled_session] 1 (minutes 20) = (None, [cancelled_session])
   \<and> complete_session [cancelled_session] 1 (minutes 20) = (None, [cancelled_session])
   \<and> get_session (snd (cancel_session [cancelled_session] 1 (minutes 20))) 1
        = Some (cancelled_session\<lparr> actual_end := Some (minutes 20),
                                   updated_at := minutes 20 \<rparr>)"
proof -
  have g: "get_session [cancelled_session] 1 = Some cancelled_session"
    by (simp add: get_session_def cancelled_session_def running_session_def)
  have c: "status cancelled_session = CANCELLED"
    by (simp add: cancelled_session_def)
  show ?thesis
    using cancelled_is_terminal_but_for_cancel [OF g c, of "minutes 20"] g c by blast
qed

text \<open>
  The claim as stated fails: a second \<^verbatim>\<open>cancel_session\<close>, 10 minutes after the first,
  is not rejected and moves \<open>actual_end\<close> from minute 10 to minute 20.
\<close>

theorem cancel_on_cancelled_counterexample:
  "get_session [cancelled_session] 1 = Some cancelled_session
   \<and> status cancelled_session = CANCELLED
   \<and> actual_end cancelled_session = Some (minutes 10)
   \<and> cancel_session [cancelled_session] 1 (minutes 20)
       = (Some (cancelled_session\<lparr> actual_end := Some (minutes 20),
                                   updated_at := minutes 20 \<rparr>),
          [cancelled_session\<lparr> actual_end := Some (minutes 20), updated_at := minutes 20 \<rparr>])
   \<and> cancel_session [cancelled_session] 1 (minutes 20) \<noteq> (None, [cancelled_session])
   \<and> minutes 10 \<noteq> minutes 20"
  by (simp add: cancel_session_def get_session_def commit_session_def cancelled_session_def
        running_session_def minutes_def Let_def)

section \<open>Durations of a completed session\<close>

text \<open>
  Claim C10, as amended. \<^verbatim>\<open>complete_session\<close> on an ACTIVE or PAUSED session returns
  and stores a COMPLETED record whose \<open>paused_duration\<close> and \<open>last_pause_start\<close> are
  those of the record before: completed from PAUSED, the running pause is not added
  and \<open>last_pause_start\<close> stays set. When \<open>actual_start\<close> is set, \<open>actual_duration\<close> is
  the whole minutes from \<open>actual_start\<close> to \<open>actual_end\<close>, pauses included; and when
  that number is not 0, \<open>effective_duration_minutes\<close> is \<open>actual_duration\<close> minus
  \<open>paused_duration\<close>.
\<close>

theorem complete_session_durations:
  assumes "get_session db sid = Some s"
      and "status s = ACTIVE \<or> status s = PAUSED"
  shows "case complete_session db sid now of
           (None, db') \<Rightarrow> False
         | (Some s', db') \<Rightarrow>
             db' = commit_session db s'
           \<and> status s' = COMPLETED
           \<and> actual_end s' = Some now
           \<and> paused_duration s' = paused_duration s
           \<and> last_pause_start s' = last_pause_start s
           \<and> (\<forall>t0. actual_start s = Some t0 \<longrightarrow>
                 actual_duration s' = Some (total_minutes (now - t0))
                 \<and> (total_minutes (now - t0) \<noteq> 0 \<longrightarrow>
                      effective_duration_minutes s'
                        = total_minutes (now - t0) - paused_duration s'))"
  using assms
  by (cases "actual_start s")
     (auto simp: complete_session_def Let_def effective_duration_minutes_def truthy_def)

theorem complete_session_durations_witness:
  "get_session [paused_session] 1 = Some paused_session
   \<and> status paused_session = PAUSED
   \<and> last_pause_start paused_session = Some (minutes 10)
   \<and> actual_start paused_session = Some 0
   \<and> (case complete_session [paused_session] 1 (minutes 25) of
        (None, db') \<Rightarrow> False
      | (Some s', db') \<Rightarrow>
          status s' = COMPLETED
          \<and> paused_duration s' = 0
          \<and> last_pause_start s' = Some (minutes 10)
          \<and> actual_duration s' = Some 25
          \<and> effective_duration_minutes s' = 25)"
proof -
  have g: "get_session [paused_session] 1 = Some paused_session"
    by (simp add: get_session_def paused_session_def running_session_def)
  have p: "status paused_session = ACTIVE \<or> status paused_session = PAUSED"
    by (simp add: paused_session_def)
  have m: "total_minutes (minutes 25 - 0) = 25"
    by (simp add: total_minutes_def minutes_def)
  have f: "last_pause_start paused_session = Some (minutes 10)"
          "actual_start paused_session = Some 0" "paused_duration paused_session = 0"
          "status paused_session = PAUSED"
    by (simp_all add: paused_session_def running_session_def)
  show ?thesis
    using complete_session_durations [OF g p, of "minutes 25"] g m f
    by (auto split: option.splits prod.splits)
qed

text \<open>
  The claim as stated fails for a session completed within its first minute: 30 seconds
  after the start \<open>actual_duration\<close> is 0, which \<open>effective_duration_minutes\<close> takes
  for unset, and the result is the planned 25 minutes, not 0 minus the pauses.
\<close>

theorem short_session_counterexample:
  "get_session [running_session] 1 = Some running_session
   \<and> actual_start running_session = Some 0
   \<and> (case complete_session [running_session] 1 30000000 of
        (None, db') \<Rightarrow> False
      | (Some s', db') \<Rightarrow>
          status s' = COMPLETED \<and> actual_duration s' = Some 0 \<and> paused_duration s' = 0
          \<and> effective_duration_minutes s' = 25
          \<and> effective_duration_minutes s' \<noteq> 0 - paused_duration s')"
  by (simp add: complete_session_def get_session_def running_session_def Let_def
        total_minutes_def effective_duration_minutes_def truthy_def)

section \<open>The cache entry gates pause, resume and cancel\<close>

text \<open>
  Claim C9. For a user id with no entry in \<^verbatim>\<open>active_sessions\<close>, the timer's
  \<^verbatim>\<open>pause_session\<close>, \<^verbatim>\<open>resume_session\<close> and \<^verbatim>\<open>cancel_session\<close> return
  \<^verbatim>\<open>False\<close> and leave the whole state as it was: the stored sessions, the jobs and
  the cache. Nothing is assumed about the table, so this holds also when it has an
  ACTIVE or PAUSED session of that user.
\<close>

theorem timer_without_cache_entry:
  assumes "active_sessions st uid = None"
  shows "timer_pause_session st uid now = (False, st)
       \<and> timer_resume_session st uid now = (False, st)
       \<and> timer_cancel_session st uid now = (False, st)"
  using assms
  by (simp add: timer_pause_session_def timer_resume_session_def timer_cancel_session_def)

theorem timer_without_cache_entry_witness:
  "get_active_session (focus_sessions uncached_timer) 7 = Some running_session
   \<and> active_sessions uncached_timer 7 = None
   \<and> timer_pause_session uncached_timer 7 (minutes 10) = (False, uncached_timer)
   \<and> timer_resume_session uncached_timer 7 (minutes 10) = (False, uncached_timer)
   \<and> timer_cancel_session uncached_timer 7 (minutes 10) = (False, uncached_timer)"
proof -
  have c: "active_sessions uncached_timer 7 = None"
    by (simp add: uncached_timer_def new_timer_def)
  have a: "get_active_session (focus_sessions uncached_timer) 7 = Some running_session"
    by (simp add: uncached_timer_def new_timer_def get_active_session_def running_session_def)
  show ?thesis
    using timer_without_cache_entry [OF c, of "minutes 10"] a c by simp
qed

section \<open>Firing a reminder that was already sent\<close>

lemma scheduler_with_fields:
  "reminders (scheduler_with r) = [r]"
  "users (scheduler_with r) = [7 \<mapsto> 4242]"
  "outbox (scheduler_with r) = []"
  by (simp_all add: scheduler_with_def schedule_reminder_def Let_def)

text \<open>
  Claim C7. Firing a reminder whose stored status is SENT changes nothing: the job
  callback \<^verbatim>\<open>_send_reminder_job\<close> returns the state it was given, whatever a delivery
  would have done, so no message is handed over and the status, \<open>sent_count\<close> and
  \<open>sent_at\<close> stay; and the periodic sweep neither changes the record nor queues a send
  for it. This holds for every SENT reminder, the non-recurring ones among them.
\<close>

theorem fire_on_sent_reminder_is_noop:
  assumes "get_reminder (reminders st) rid = Some r" and "rem_status r = R_SENT"
  shows "send_reminder_job cron_days st rid d now = st
       \<and> check_due_reminders [r] utcnow = ([r], [])"
  using assms
  by (simp add: send_reminder_job_def is_active_def check_due_reminders_def due_def)

theorem fire_on_sent_reminder_is_noop_witness:
  "get_reminder (reminders (scheduler_with sent_reminder)) 1 = Some sent_reminder
   \<and> rem_status sent_reminder = R_SENT \<and> is_recurring sent_reminder = False
   \<and> send_reminder_job Some (scheduler_with sent_reminder) 1 Delivered (minutes 2)
        = scheduler_with sent_reminder
   \<and> outbox (send_reminder_job Some (scheduler_with sent_reminder) 1 Delivered (minutes 2)) = []
   \<and> check_due_reminders [sent_reminder] (minutes 2) = ([sent_reminder], [])"
proof -
  have g: "get_reminder (reminders (scheduler_with sent_reminder)) 1 = Some sent_reminder"
    by (simp add: scheduler_with_fields get_reminder_def sent_reminder_def once_reminder_def
          water_reminder_def)
  have s: "rem_status sent_reminder = R_SENT"
    by (simp add: sent_reminder_def)
  have o: "outbox (scheduler_with sent_reminder) = []" "is_recurring sent_reminder = False"
    by (simp_all add: scheduler_with_fields sent_reminder_def once_reminder_def)
  show ?thesis
    using fire_on_sent_reminder_is_noop [OF g s, of Some Delivered "minutes 2" "minutes 2"] g s o
    by simp
qed

section \<open>What the scheduler's job does with a reminder\<close>

lemma ids_commit_reminder: "map rem_id (commit_reminder rs r') = map rem_id rs"
  by (simp add: commit_reminder_def)

lemma length_commit_reminder: "length (commit_reminder rs r') = length rs"
  by (simp add: commit_reminder_def)

lemma send_reminder_job_active:
  assumes "get_reminder (reminders st) rid = Some r" and "is_active r"
  shows "send_reminder_job cron_days st rid d now
           = (if recurring_with_interval r
              then schedule_next_recurring_reminder cron_days (send_reminder st r d now) r now
              else send_reminder st r d now)"
  using assms by (simp add: send_reminder_job_def Let_def)

lemma send_reminder_raises:
  assumes "get_reminder (reminders st) rid = Some r"
      and "users st (rem_user_id r) = Some telegram_id" and "telegram_id \<noteq> 0"
  shows "send_reminder st r Raises now
           = st\<lparr> reminders := commit_reminder (reminders st)
                  (r\<lparr> rem_status := R_FAILED, failed_at := Some now,
                      failed_count := failed_count r + 1 \<rparr>) \<rparr>"
  using assms get_reminder_id [OF assms(1)]
  by (simp add: send_reminder_def mark_as_failed_def)

lemma send_reminder_returns_none:
  assumes "get_reminder (reminders st) rid = Some r"
      and "users st (rem_user_id r) = Some telegram_id" and "telegram_id \<noteq> 0"
  shows "send_reminder st r ReturnsNone now
           = st\<lparr> reminders := commit_reminder (reminders st)
                  (r\<lparr> rem_status := R_SENT, sent_at := Some now,
                      sent_count := sent_count r + 1 \<rparr>) \<rparr>"
  using assms get_reminder_id [OF assms(1)]
  by (simp add: send_reminder_def mark_as_sent_def)

lemma send_reminder_delivered:
  assumes "get_reminder (reminders st) rid = Some r"
      and "users st (rem_user_id r) = Some telegram_id" and "telegram_id \<noteq> 0"
  shows "send_reminder st r Delivered now
           = st\<lparr> outbox := outbox st @ [(telegram_id, rid)],
                 reminders := commit_reminder (reminders st)
                  (r\<lparr> rem_status := R_SENT, sent_at := Some now,
                      sent_count := sent_count r + 1 \<rparr>) \<rparr>"
  using assms get_reminder_id [OF assms(1)]
  by (simp add: send_reminder_def mark_as_sent_def)

lemma send_reminder_no_chat:
  assumes "users st (rem_user_id r) = None \<or> users st (rem_user_id r) = Some 0"
  shows "send_reminder st r d now = st"
  using assms by (auto simp: send_reminder_def)

lemma schedule_next_appends:
  assumes "repeat_interval r = Some n" and "recurring_with_interval r"
  shows "\<exists>succ. reminders (schedule_next_recurring_reminder cron_days st r now)
                  = reminders st @ [succ]
              \<and> rem_id succ = new_reminder_id (reminders st)
              \<and> scheduled_time succ = now + minutes n
              \<and> expires_at succ = expires_at r
              \<and> rem_status succ = R_ACTIVE \<and> sent_count succ = 0
              \<and> jobs (schedule_next_recurring_reminder cron_days st r now) (rem_id succ)
                  = Some (IntervalTrigger n (now + minutes n) (expires_at r))"
  using assms
  by (simp add: schedule_next_recurring_reminder_def schedule_reminder_def Let_def
        recurring_with_interval_def)

lemma length_send_reminder: "length (reminders (send_reminder st r d now)) = length (reminders st)"
  by (auto simp: send_reminder_def mark_as_sent_def mark_as_failed_def length_commit_reminder
        split: option.splits delivery.splits)

lemma job_appends_successor:
  assumes "get_reminder (reminders st) rid = Some r" and "is_active r"
      and "recurring_with_interval r" and "repeat_interval r = Some n"
  shows "\<exists>xs succ. reminders (send_reminder_job cron_days st rid d now) = xs @ [succ]
              \<and> xs = reminders (send_reminder st r d now)
              \<and> length xs = length (reminders st)
              \<and> scheduled_time succ = now + minutes n
              \<and> expires_at succ = expires_at r
              \<and> rem_status succ = R_ACTIVE \<and> sent_count succ = 0
              \<and> jobs (send_reminder_job cron_days st rid d now) (rem_id succ)
                  = Some (IntervalTrigger n (now + minutes n) (expires_at r))"
proof -
  have j: "send_reminder_job cron_days st rid d now
             = schedule_next_recurring_reminder cron_days (send_reminder st r d now) r now"
    using send_reminder_job_active [OF assms(1,2)] assms(3) by simp
  show ?thesis
    unfolding j
    using schedule_next_appends [OF assms(4,3), of cron_days "send_reminder st r d now" now]
          length_send_reminder [of st r d now]
    by auto
qed

lemma once_facts:
  "get_reminder (reminders (scheduler_with once_reminder)) 1 = Some once_reminder"
  "is_active once_reminder"
  "users (scheduler_with once_reminder) (rem_user_id once_reminder) = Some 4242"
  "recurring_with_interval once_reminder = False"
  by (simp_all add: scheduler_with_fields get_reminder_def once_reminder_def
        water_reminder_def is_active_def recurring_with_interval_def)

lemma water_facts:
  "get_reminder (reminders (scheduler_with water_reminder)) 1 = Some water_reminder"
  "is_active water_reminder"
  "users (scheduler_with water_reminder) (rem_user_id water_reminder) = Some 4242"
  "recurring_with_interval water_reminder"
  "repeat_interval water_reminder = Some 60"
  by (simp_all add: scheduler_with_fields get_reminder_def water_reminder_def is_active_def
        recurring_with_interval_def truthy_def)

section \<open>A dispatch that fails\<close>

text \<open>
  Claim C3, as amended. The reminder is active and its user has a chat id. When the
  send raises (every error but the three below, which \<^verbatim>\<open>send_message\<close> passes on),
  \<^verbatim>\<open>_send_reminder_job\<close> stores the reminder as FAILED, with \<open>failed_at\<close> set and
  \<open>failed_count\<close> one higher. When the failure is a permanent one (chat not found, bot
  blocked, forbidden), \<^verbatim>\<open>send_message\<close> returns \<^verbatim>\<open>None\<close> and the reminder is
  stored as SENT, with \<open>sent_at\<close> set and \<open>sent_count\<close> one higher. In both cases, when
  the reminder is not recurring with an interval, nothing else changes: no record is
  added and no job is scheduled or removed. When it is recurring with an interval of
  \<open>n\<close> minutes, whatever the send did, one successor record is appended, ACTIVE and
  due \<open>n\<close> minutes after the fire, under an interval job of its own.
\<close>

theorem failed_dispatch_marking:
  assumes "get_reminder (reminders st) rid = Some r"
      and "is_active r"
      and "users st (rem_user_id r) = Some telegram_id" and "telegram_id \<noteq> 0"
  shows "get_reminder (reminders (send_reminder_job cron_days st rid Raises now)) rid
           = Some (r\<lparr> rem_status := R_FAILED, failed_at := Some now,
                       failed_count := failed_count r + 1 \<rparr>)
       \<and> get_reminder (reminders (send_reminder_job cron_days st rid ReturnsNone now)) rid
           = Some (r\<lparr> rem_status := R_SENT, sent_at := Some now,
                       sent_count := sent_count r + 1 \<rparr>)
       \<and> (\<not> recurring_with_interval r \<longrightarrow>
            send_reminder_job cron_days st rid Raises now
              = st\<lparr> reminders := commit_reminder (reminders st)
                     (r\<lparr> rem_status := R_FAILED, failed_at := Some now,
                         failed_count := failed_count r + 1 \<rparr>) \<rparr>
          \<and> send_reminder_job cron_days st rid ReturnsNone now
              = st\<lparr> reminders := commit_reminder (reminders st)
                     (r\<lparr> rem_status := R_SENT, sent_at := Some now,
                         sent_count := sent_count r + 1 \<rparr>) \<rparr>)
       \<and> (recurring_with_interval r \<longrightarrow>
            (\<forall>d. \<exists>xs succ.
               reminders (send_reminder_job cron_days st rid d now) = xs @ [succ]
               \<and> length xs = length (reminders st)
               \<and> rem_status succ = R_ACTIVE
               \<and> (\<exists>n. repeat_interval r = Some n
                      \<and> scheduled_time succ = now + minutes n
                      \<and> jobs (send_reminder_job cron_days st rid d now) (rem_id succ)
                          = Some (IntervalTrigger n (now + minutes n) (expires_at r)))))"
proof -
  let ?f = "r\<lparr> rem_status := R_FAILED, failed_at := Some now,
                failed_count := failed_count r + 1 \<rparr>"
  let ?s = "r\<lparr> rem_status := R_SENT, sent_at := Some now, sent_count := sent_count r + 1 \<rparr>"
  have id: "rem_id r = rid" using assms(1) by (rule get_reminder_id)
  note ra = send_reminder_raises [OF assms(1,3,4), of now]
  note rn = send_reminder_returns_none [OF assms(1,3,4), of now]
  have gf: "get_reminder (commit_reminder (reminders st) ?f) rid = Some ?f"
    using get_reminder_commit [OF assms(1), of ?f] id by simp
  have gs: "get_reminder (commit_reminder (reminders st) ?s) rid = Some ?s"
    using get_reminder_commit [OF assms(1), of ?s] id by simp
  show ?thesis
  proof (cases "recurring_with_interval r")
    case False
    then show ?thesis
      using send_reminder_job_active [OF assms(1,2)] ra rn gf gs by simp
  next
    case True
    then obtain n where n: "repeat_interval r = Some n"
      by (auto simp: recurring_with_interval_def truthy_def split: option.splits)
    have a: "get_reminder (reminders (send_reminder_job cron_days st rid Raises now)) rid = Some ?f"
      using job_appends_successor [OF assms(1,2) True n, of cron_days Raises now] ra
            get_reminder_append [OF gf]
      by auto
    have b: "get_reminder (reminders (send_reminder_job cron_days st rid ReturnsNone now)) rid = Some ?s"
      using job_appends_successor [OF assms(1,2) True n, of cron_days ReturnsNone now] rn
            get_reminder_append [OF gs]
      by auto
    have c: "\<exists>xs succ.
               reminders (send_reminder_job cron_days st rid d now) = xs @ [succ]
               \<and> length xs = length (reminders st)
               \<and> rem_status succ = R_ACTIVE
               \<and> (\<exists>n. repeat_interval r = Some n
                      \<and> scheduled_time succ = now + minutes n
                      \<and> jobs (send_reminder_job cron_days st rid d now) (rem_id succ)
                          = Some (IntervalTrigger n (now + minutes n) (expires_at r)))" for d
      using job_appends_successor [OF assms(1,2) True n, of cron_days d now] n by blast
    show ?thesis using True a b c by blast
  qed
qed

theorem failed_dispatch_marking_witness:
  "get_reminder (reminders (scheduler_with once_reminder)) 1 = Some once_reminder
   \<and> is_active once_reminder
   \<and> users (scheduler_with once_reminder) (rem_user_id once_reminder) = Some 4242
   \<and> recurring_with_interval once_reminder = False
   \<and> send_reminder_job Some (scheduler_with once_reminder) 1 Raises (minutes 2)
        = (scheduler_with once_reminder)\<lparr> reminders :=
             [once_reminder\<lparr> rem_status := R_FAILED, failed_at := Some (minutes 2),
                             failed_count := 1 \<rparr>] \<rparr>
   \<and> send_reminder_job Some (scheduler_with once_reminder) 1 ReturnsNone (minutes 2)
        = (scheduler_with once_reminder)\<lparr> reminders :=
             [once_reminder\<lparr> rem_status := R_SENT, sent_at := Some (minutes 2),
                             sent_count := 1 \<rparr>] \<rparr>
   \<and> get_reminder (reminders (scheduler_with water_reminder)) 1 = Some water_reminder
   \<and> is_active water_reminder \<and> recurring_with_interval water_reminder
   \<and> get_reminder
        (reminders (send_reminder_job Some (scheduler_with water_reminder) 1 Raises (minutes 2))) 1
        = Some (water_reminder\<lparr> rem_status := R_FAILED, failed_at := Some (minutes 2),
                                failed_count := 1 \<rparr>)
   \<and> length (reminders (send_reminder_job Some (scheduler_with water_reminder) 1 Raises (minutes 2)))
        = 2"
proof -
  have z: "(4242::int) \<noteq> 0" by simp
  have c: "commit_reminder (reminders (scheduler_with once_reminder))
             (once_reminder\<lparr> rem_status := R_FAILED, failed_at := Some (minutes 2),
                             failed_count := failed_count once_reminder + 1 \<rparr>)
           = [once_reminder\<lparr> rem_status := R_FAILED, failed_at := Some (minutes 2),
                             failed_count := 1 \<rparr>]"
          "commit_reminder (reminders (scheduler_with once_reminder))
             (once_reminder\<lparr> rem_status := R_SENT, sent_at := Some (minutes 2),
                             sent_count := sent_count once_reminder + 1 \<rparr>)
           = [once_reminder\<lparr> rem_status := R_SENT, sent_at := Some (minutes 2),
                             sent_count := 1 \<rparr>]"
    by (simp_all add: commit_reminder_def scheduler_with_fields once_reminder_def
          water_reminder_def)
  have f: "failed_count water_reminder + 1 = 1"
          "length (reminders (scheduler_with water_reminder)) = 1"
    by (simp_all add: water_reminder_def scheduler_with_fields)
  have w: "length (reminders (send_reminder_job Some (scheduler_with water_reminder) 1 Raises
             (minutes 2))) = 2"
    using failed_dispatch_marking [OF water_facts(1,2,3) z, of Some "minutes 2"]
          water_facts(4) f(2)
    by (metis length_append_singleton numeral_2_eq_2 One_nat_def)
  show ?thesis
    using failed_dispatch_marking [OF once_facts(1,2,3) z, of Some "minutes 2"]
          failed_dispatch_marking [OF water_facts(1,2,3) z, of Some "minutes 2"]
          once_facts water_facts c f w
    by simp
qed

text \<open>
  The claim as stated fails twice. For a recurring reminder whose send raises at
  minute 2, the reminder is stored as FAILED and all the same a successor record 2 is
  created, ACTIVE and due at minute 62, with an interval job of its own. And for a
  one-off reminder whose chat is gone, so that the send returns \<^verbatim>\<open>None\<close>, the reminder
  is stored as SENT, not FAILED, though no message went out.
\<close>

theorem failed_dispatch_counterexample:
  "get_reminder (reminders (scheduler_with water_reminder)) 1 = Some water_reminder
   \<and> is_active water_reminder
   \<and> map rem_id
        (reminders (send_reminder_job Some (scheduler_with water_reminder) 1 Raises (minutes 2)))
        = [1, 2]
   \<and> map rem_status
        (reminders (send_reminder_job Some (scheduler_with water_reminder) 1 Raises (minutes 2)))
        = [R_FAILED, R_ACTIVE]
   \<and> map scheduled_time
        (reminders (send_reminder_job Some (scheduler_with water_reminder) 1 Raises (minutes 2)))
        = [0, minutes 62]
   \<and> jobs (scheduler_with water_reminder) 2 = None
   \<and> jobs (send_reminder_job Some (scheduler_with water_reminder) 1 Raises (minutes 2)) 2
        = Some (IntervalTrigger 60 (minutes 62) (Some (minutes 10)))
   \<and> get_reminder (reminders (scheduler_with once_reminder)) 1 = Some once_reminder
   \<and> is_active once_reminder
   \<and> map rem_status
        (reminders (send_reminder_job Some (scheduler_with once_reminder) 1 ReturnsNone (minutes 2)))
        = [R_SENT]
   \<and> map failed_count
        (reminders (send_reminder_job Some (scheduler_with once_reminder) 1 ReturnsNone (minutes 2)))
        = [0]
   \<and> outbox (send_reminder_job Some (scheduler_with once_reminder) 1 ReturnsNone (minutes 2)) = []"
  by (simp add: send_reminder_job_def scheduler_with_def get_reminder_def water_reminder_def
        once_reminder_def is_active_def send_reminder_def mark_as_failed_def mark_as_sent_def
        commit_reminder_def recurring_with_interval_def truthy_def
        schedule_next_recurring_reminder_def schedule_reminder_def new_reminder_id_def
        Let_def minutes_def)

section \<open>Interval reminders: the count and the next occurrence\<close>

text \<open>
  Claim C6, as amended. Let the reminder be recurring with an interval of \<open>n\<close> minutes.
  In the periodic sweep, in any row of any table: when it is due, the sweep queues a
  send for it, raises \<open>sent_count\<close> by exactly one, sets \<open>sent_at\<close> and moves
  \<open>scheduled_time\<close> to the current time plus \<open>n\<close> minutes, be that before or after
  \<open>expires_at\<close>; a due reminder has not reached \<open>expires_at\<close>, and one that has
  reached it is not due and its row is left as it was. In the scheduler's job, for an
  active reminder: \<open>sent_count\<close> rises by exactly one when the user has a chat id and
  the send returns; it is unchanged (and \<open>failed_count\<close> rises) when the send raises;
  the record is unchanged when the user row or its chat id is missing. In each case
  the job appends one successor record, ACTIVE with \<open>sent_count\<close> 0, due \<open>n\<close> minutes
  after the fire whatever \<open>expires_at\<close> is, and gives it an interval job that starts
  then and takes \<open>expires_at\<close> as its end date.
\<close>

theorem interval_fire_counts_and_reschedules:
  assumes "recurring_with_interval r" and "repeat_interval r = Some n"
  shows "(i < length rs \<and> rs ! i = r \<and> due r utcnow \<longrightarrow>
            fst (check_due_reminders rs utcnow) ! i
              = r\<lparr> sent_at := Some utcnow, sent_count := sent_count r + 1,
                    scheduled_time := utcnow + minutes n \<rparr>
            \<and> rem_id r \<in> set (snd (check_due_reminders rs utcnow))
            \<and> (\<forall>e. expires_at r = Some e \<longrightarrow> utcnow < e))
       \<and> (i < length rs \<and> rs ! i = r \<and> expires_at r = Some e \<and> e \<le> utcnow \<longrightarrow>
            \<not> due r utcnow \<and> fst (check_due_reminders rs utcnow) ! i = r)
       \<and> (get_reminder (reminders st) rid = Some r \<and> is_active r \<longrightarrow>
            (users st (rem_user_id r) = Some telegram_id \<and> telegram_id \<noteq> 0
               \<and> d \<noteq> Raises \<longrightarrow>
               get_reminder (reminders (send_reminder_job cron_days st rid d now)) rid
                 = Some (r\<lparr> rem_status := R_SENT, sent_at := Some now,
                            sent_count := sent_count r + 1 \<rparr>))
          \<and> (users st (rem_user_id r) = Some telegram_id \<and> telegram_id \<noteq> 0
               \<and> d = Raises \<longrightarrow>
               get_reminder (reminders (send_reminder_job cron_days st rid d now)) rid
                 = Some (r\<lparr> rem_status := R_FAILED, failed_at := Some now,
                            failed_count := failed_count r + 1 \<rparr>))
          \<and> (users st (rem_user_id r) = None \<or> users st (rem_user_id r) = Some 0 \<longrightarrow>
               get_reminder (reminders (send_reminder_job cron_days st rid d now)) rid = Some r)
          \<and> (\<exists>xs succ.
                reminders (send_reminder_job cron_days st rid d now) = xs @ [succ]
                \<and> length xs = length (reminders st)
                \<and> scheduled_time succ = now + minutes n
                \<and> expires_at succ = expires_at r
                \<and> rem_status succ = R_ACTIVE \<and> sent_count succ = 0
                \<and> jobs (send_reminder_job cron_days st rid d now) (rem_id succ)
                    = Some (IntervalTrigger n (now + minutes n) (expires_at r))))"
proof -
  have act: "rem_status r = R_ACTIVE \<Longrightarrow> r\<lparr> rem_status := R_ACTIVE \<rparr> = r"
    by (cases r) simp
  have sweep: "i < length rs \<and> rs ! i = r \<and> due r utcnow \<longrightarrow>
            fst (check_due_reminders rs utcnow) ! i
              = r\<lparr> sent_at := Some utcnow, sent_count := sent_count r + 1,
                    scheduled_time := utcnow + minutes n \<rparr>
            \<and> rem_id r \<in> set (snd (check_due_reminders rs utcnow))
            \<and> (\<forall>e. expires_at r = Some e \<longrightarrow> utcnow < e)"
  proof (intro impI)
    assume h: "i < length rs \<and> rs ! i = r \<and> due r utcnow"
    then have a: "rem_status r = R_ACTIVE" by (simp add: due_def)
    have m: "r \<in> set rs" using h nth_mem by blast
    have "process_due r utcnow
            = r\<lparr> sent_at := Some utcnow, sent_count := sent_count r + 1,
                  scheduled_time := utcnow + minutes n \<rparr>"
      using assms a by (simp add: process_due_def recurring_with_interval_def Let_def act)
    moreover have "rem_id r \<in> set (snd (check_due_reminders rs utcnow))"
      using m h by (auto simp: check_due_reminders_def)
    moreover have "\<forall>e. expires_at r = Some e \<longrightarrow> utcnow < e"
      using h by (auto simp: due_def)
    ultimately show "fst (check_due_reminders rs utcnow) ! i
              = r\<lparr> sent_at := Some utcnow, sent_count := sent_count r + 1,
                    scheduled_time := utcnow + minutes n \<rparr>
            \<and> rem_id r \<in> set (snd (check_due_reminders rs utcnow))
            \<and> (\<forall>e. expires_at r = Some e \<longrightarrow> utcnow < e)"
      using h by (simp add: check_due_reminders_def)
  qed
  have expired: "i < length rs \<and> rs ! i = r \<and> expires_at r = Some e \<and> e \<le> utcnow \<longrightarrow>
            \<not> due r utcnow \<and> fst (check_due_reminders rs utcnow) ! i = r"
    by (auto simp: check_due_reminders_def due_def)
  have job: "get_reminder (reminders st) rid = Some r \<and> is_active r \<longrightarrow>
            (users st (rem_user_id r) = Some telegram_id \<and> telegram_id \<noteq> 0
               \<and> d \<noteq> Raises \<longrightarrow>
               get_reminder (reminders (send_reminder_job cron_days st rid d now)) rid
                 = Some (r\<lparr> rem_status := R_SENT, sent_at := Some now,
                            sent_count := sent_count r + 1 \<rparr>))
          \<and> (users st (rem_user_id r) = Some telegram_id \<and> telegram_id \<noteq> 0
               \<and> d = Raises \<longrightarrow>
               get_reminder (reminders (send_reminder_job cron_days st rid d now)) rid
                 = Some (r\<lparr> rem_status := R_FAILED, failed_at := Some now,
                            failed_count := failed_count r + 1 \<rparr>))
          \<and> (users st (rem_user_id r) = None \<or> users st (rem_user_id r) = Some 0 \<longrightarrow>
               get_reminder (reminders (send_reminder_job cron_days st rid d now)) rid = Some r)
          \<and> (\<exists>xs succ.
                reminders (send_reminder_job cron_days st rid d now) = xs @ [succ]
                \<and> length xs = length (reminders st)
                \<and> scheduled_time succ = now + minutes n
                \<and> expires_at succ = expires_at r
                \<and> rem_status succ = R_ACTIVE \<and> sent_count succ = 0
                \<and> jobs (send_reminder_job cron_days st rid d now) (rem_id succ)
                    = Some (IntervalTrigger n (now + minutes n) (expires_at r)))"
  proof (intro impI)
    assume h: "get_reminder (reminders st) rid = Some r \<and> is_active r"
    then have g: "get_reminder (reminders st) rid = Some r" and a: "is_active r" by simp_all
    have id: "rem_id r = rid" using g by (rule get_reminder_id)
    obtain xs succ where
      x: "reminders (send_reminder_job cron_days st rid d now) = xs @ [succ]"
         "xs = reminders (send_reminder st r d now)"
         "length xs = length (reminders st)"
         "scheduled_time succ = now + minutes n" "expires_at succ = expires_at r"
         "rem_status succ = R_ACTIVE" "sent_count succ = 0"
         "jobs (send_reminder_job cron_days st rid d now) (rem_id succ)
            = Some (IntervalTrigger n (now + minutes n) (expires_at r))"
      using job_appends_successor [OF g a assms, of cron_days d now] by blast
    have stored: "get_reminder xs rid = Some r'
                  \<Longrightarrow> get_reminder (reminders (send_reminder_job cron_days st rid d now)) rid
                        = Some r'" for r'
      using x(1) get_reminder_append by simp
    have sent: "users st (rem_user_id r) = Some telegram_id \<and> telegram_id \<noteq> 0 \<and> d \<noteq> Raises
                \<longrightarrow> get_reminder xs rid
                      = Some (r\<lparr> rem_status := R_SENT, sent_at := Some now,
                                 sent_count := sent_count r + 1 \<rparr>)"
    proof (intro impI)
      assume u: "users st (rem_user_id r) = Some telegram_id \<and> telegram_id \<noteq> 0 \<and> d \<noteq> Raises"
      then have "reminders (send_reminder st r d now)
                   = commit_reminder (reminders st)
                       (r\<lparr> rem_status := R_SENT, sent_at := Some now,
                           sent_count := sent_count r + 1 \<rparr>)"
        using g id by (cases d) (simp_all add: send_reminder_def mark_as_sent_def)
      then show "get_reminder xs rid
                      = Some (r\<lparr> rem_status := R_SENT, sent_at := Some now,
                                 sent_count := sent_count r + 1 \<rparr>)"
        using x(2) get_reminder_commit [OF g, of "r\<lparr> rem_status := R_SENT, sent_at := Some now,
                                 sent_count := sent_count r + 1 \<rparr>"] id by simp
    qed
    have failed: "users st (rem_user_id r) = Some telegram_id \<and> telegram_id \<noteq> 0 \<and> d = Raises
                \<longrightarrow> get_reminder xs rid
                      = Some (r\<lparr> rem_status := R_FAILED, failed_at := Some now,
                                 failed_count := failed_count r + 1 \<rparr>)"
    proof (intro impI)
      assume u: "users st (rem_user_id r) = Some telegram_id \<and> telegram_id \<noteq> 0 \<and> d = Raises"
      then have "reminders (send_reminder st r d now)
                   = commit_reminder (reminders st)
                       (r\<lparr> rem_status := R_FAILED, failed_at := Some now,
                           failed_count := failed_count r + 1 \<rparr>)"
        using g id by (simp add: send_reminder_def mark_as_failed_def)
      then show "get_reminder xs rid
                      = Some (r\<lparr> rem_status := R_FAILED, failed_at := Some now,
                                 failed_count := failed_count r + 1 \<rparr>)"
        using x(2) get_reminder_commit [OF g, of "r\<lparr> rem_status := R_FAILED, failed_at := Some now,
                                 failed_count := failed_count r + 1 \<rparr>"] id by simp
    qed
    have nochat: "users st (rem_user_id r) = None \<or> users st (rem_user_id r) = Some 0
                  \<longrightarrow> get_reminder xs rid = Some r"
      using x(2) g send_reminder_no_chat [of st r d now] by auto
    show "(users st (rem_user_id r) = Some telegram_id \<and> telegram_id \<noteq> 0
               \<and> d \<noteq> Raises \<longrightarrow>
               get_reminder (reminders (send_reminder_job cron_days st rid d now)) rid
                 = Some (r\<lparr> rem_status := R_SENT, sent_at := Some now,
                            sent_count := sent_count r + 1 \<rparr>))
          \<and> (users st (rem_user_id r) = Some telegram_id \<and> telegram_id \<noteq> 0
               \<and> d = Raises \<longrightarrow>
               get_reminder (reminders (send_reminder_job cron_days st rid d now)) rid
                 = Some (r\<lparr> rem_status := R_FAILED, failed_at := Some now,
                            failed_count := failed_count r + 1 \<rparr>))
          \<and> (users st (rem_user_id r) = None \<or> users st (rem_user_id r) = Some 0 \<longrightarrow>
               get_reminder (reminders (send_reminder_job cron_days st rid d now)) rid = Some r)
          \<and> (\<exists>xs succ.
                reminders (send_reminder_job cron_days st rid d now) = xs @ [succ]
                \<and> length xs = length (reminders st)
                \<and> scheduled_time succ = now + minutes n
                \<and> expires_at succ = expires_at r
                \<and> rem_status succ = R_ACTIVE \<and> sent_count succ = 0
                \<and> jobs (send_reminder_job cron_days st rid d now) (rem_id succ)
                    = Some (IntervalTrigger n (now + minutes n) (expires_at r)))"
      using sent failed nochat stored x by blast
  qed
  show ?thesis using sweep expired job by blast
qed

theorem interval_fire_counts_and_reschedules_witness:
  "recurring_with_interval (water_reminder\<lparr> rem_id := 2 \<rparr>)
   \<and> two_reminders ! 1 = water_reminder\<lparr> rem_id := 2 \<rparr>
   \<and> due (water_reminder\<lparr> rem_id := 2 \<rparr>) (minutes 5)
   \<and> fst (check_due_reminders two_reminders (minutes 5)) ! 1
        = water_reminder\<lparr> rem_id := 2, sent_at := Some (minutes 5), sent_count := 1,
                            scheduled_time := minutes 65 \<rparr>
   \<and> 2 \<in> set (snd (check_due_reminders two_reminders (minutes 5)))
   \<and> expires_at (water_reminder\<lparr> rem_id := 2 \<rparr>) = Some (minutes 10)
   \<and> fst (check_due_reminders two_reminders (minutes 10)) ! 1
        = water_reminder\<lparr> rem_id := 2 \<rparr>
   \<and> get_reminder (reminders (scheduler_with water_reminder)) 1 = Some water_reminder
   \<and> is_active water_reminder
   \<and> get_reminder
        (reminders (send_reminder_job Some (scheduler_with water_reminder) 1 Delivered (minutes 2))) 1
        = Some (water_reminder\<lparr> rem_status := R_SENT, sent_at := Some (minutes 2),
                                sent_count := 1 \<rparr>)
   \<and> get_reminder
        (reminders (send_reminder_job Some (scheduler_with water_reminder) 1 Raises (minutes 2))) 1
        = Some (water_reminder\<lparr> rem_status := R_FAILED, failed_at := Some (minutes 2),
                                failed_count := 1 \<rparr>)"
proof -
  let ?w = "water_reminder\<lparr> rem_id := 2 \<rparr>"
  have r2: "recurring_with_interval ?w" and i2: "repeat_interval ?w = Some 60"
    by (simp_all add: recurring_with_interval_def truthy_def water_reminder_def)
  have t: "(1::nat) < length two_reminders" "two_reminders ! 1 = ?w"
    by (simp_all add: two_reminders_def)
  have d: "due ?w (minutes 5)"
    by (simp add: due_def water_reminder_def minutes_def)
  have e: "expires_at ?w = Some (minutes 10)" "minutes 10 \<le> minutes 10"
    by (simp_all add: water_reminder_def)
  have f: "sent_count ?w + 1 = 1" "rem_id ?w = 2" "minutes 5 + minutes 60 = minutes 65"
          "sent_count water_reminder + 1 = 1" "failed_count water_reminder + 1 = 1"
    by (simp_all add: water_reminder_def minutes_def)
  have z: "(4242::int) \<noteq> 0" "Delivered \<noteq> Raises" by simp_all
  note sweep5 = interval_fire_counts_and_reschedules [OF r2 i2,
        of 1 two_reminders "minutes 5" "minutes 10" "scheduler_with ?w" 1 4242 Delivered Some 0]
  note sweep10 = interval_fire_counts_and_reschedules [OF r2 i2,
        of 1 two_reminders "minutes 10" "minutes 10" "scheduler_with ?w" 1 4242 Delivered Some 0]
  note jobd = interval_fire_counts_and_reschedules [OF water_facts(4,5),
        of 1 two_reminders "minutes 5" "minutes 10" "scheduler_with water_reminder" 1 4242
           Delivered Some "minutes 2"]
  note jobr = interval_fire_counts_and_reschedules [OF water_facts(4,5),
        of 1 two_reminders "minutes 5" "minutes 10" "scheduler_with water_reminder" 1 4242
           Raises Some "minutes 2"]
  have a: "fst (check_due_reminders two_reminders (minutes 5)) ! 1
        = water_reminder\<lparr> rem_id := 2, sent_at := Some (minutes 5), sent_count := 1,
                            scheduled_time := minutes 65 \<rparr>
           \<and> 2 \<in> set (snd (check_due_reminders two_reminders (minutes 5)))"
    using sweep5 t d f by simp
  have b: "fst (check_due_reminders two_reminders (minutes 10)) ! 1 = ?w"
    using sweep10 t e by simp
  have c: "get_reminder
        (reminders (send_reminder_job Some (scheduler_with water_reminder) 1 Delivered (minutes 2))) 1
        = Some (water_reminder\<lparr> rem_status := R_SENT, sent_at := Some (minutes 2),
                                sent_count := 1 \<rparr>)"
    using jobd water_facts z f by simp
  have g: "get_reminder
        (reminders (send_reminder_job Some (scheduler_with water_reminder) 1 Raises (minutes 2))) 1
        = Some (water_reminder\<lparr> rem_status := R_FAILED, failed_at := Some (minutes 2),
                                failed_count := 1 \<rparr>)"
    using jobr water_facts z f by simp
  show ?thesis
    using r2 t d e a b c g water_facts by simp
qed

text \<open>
  The claim as stated fails twice. The reminder expires at minute 10 and repeats every
  60 minutes: fired by the sweep at minute 5, its next occurrence is set to minute 65.
  And fired by the scheduler's job at minute 2 with a send that raises, its \<open>sent_count\<close>
  stays 0, while the successor is due at minute 62, after the expiry as well.
\<close>

theorem interval_fire_counterexample:
  "recurring_with_interval water_reminder
   \<and> due water_reminder (minutes 5)
   \<and> fst (check_due_reminders [water_reminder] (minutes 5))
        = [process_due water_reminder (minutes 5)]
   \<and> expires_at (process_due water_reminder (minutes 5)) = Some (minutes 10)
   \<and> scheduled_time (process_due water_reminder (minutes 5)) = minutes 65
   \<and> minutes 10 < minutes 65
   \<and> get_reminder (reminders (scheduler_with water_reminder)) 1 = Some water_reminder
   \<and> is_active water_reminder
   \<and> sent_count water_reminder = 0
   \<and> map sent_count
        (reminders (send_reminder_job Some (scheduler_with water_reminder) 1 Raises (minutes 2)))
        = [0, 0]
   \<and> map scheduled_time
        (reminders (send_reminder_job Some (scheduler_with water_reminder) 1 Raises (minutes 2)))
        = [0, minutes 62]
   \<and> map expires_at
        (reminders (send_reminder_job Some (scheduler_with water_reminder) 1 Raises (minutes 2)))
        = [Some (minutes 10), Some (minutes 10)]
   \<and> minutes 10 < minutes 62"
  by (simp add: recurring_with_interval_def truthy_def water_reminder_def due_def
        process_due_def minutes_def check_due_reminders_def Let_def
        send_reminder_job_def scheduler_with_def get_reminder_def
        is_active_def send_reminder_def mark_as_failed_def commit_reminder_def
        schedule_next_recurring_reminder_def schedule_reminder_def new_reminder_id_def)

section \<open>Marked as sent before the delivery\<close>

text \<open>
  In the sweep the row is written as soon as the send is queued: for a due reminder that
  does not repeat, the stored record is SENT whatever the queued task will do.
\<close>

lemma sweep_marks_sent:
  assumes "due r utcnow" and "\<not> recurring_with_interval r"
  shows "check_due_reminders [r] utcnow
           = ([r\<lparr> rem_status := R_SENT, sent_at := Some utcnow,
                   sent_count := sent_count r + 1 \<rparr>], [rem_id r])"
  using assms
  by (auto simp: check_due_reminders_def process_due_def recurring_with_interval_def Let_def)

text \<open>
  The scheduler's job does the same when the bot swallows the failure: a send that
  returns \<^verbatim>\<open>None\<close> (chat not found, bot blocked) puts nothing in the outbox, and the
  reminder is stored as SENT.
\<close>

lemma swallowed_failure_marks_sent:
  assumes "users st (rem_user_id r) = Some telegram_id" and "telegram_id \<noteq> 0"
  shows "send_reminder st r ReturnsNone now
           = st\<lparr> reminders := mark_as_sent (reminders st) (rem_id r) now \<rparr>"
  using assms by (simp add: send_reminder_def)

text \<open>
  Claim C8. There is a fire in which the reminder is marked SENT although its delivery
  raised: a due reminder is found by the sweep, which queues the send and stores the
  record with status SENT, \<open>sent_at\<close> set and \<open>sent_count\<close> one higher; the queued task
  then fails to send and reports an error, and writes nothing back.
\<close>

theorem marked_sent_although_delivery_failed:
  "\<exists>rs us utcnow rid r.
     get_reminder rs rid = Some r \<and> due r utcnow
     \<and> (case check_due_reminders rs utcnow of
          (rs', queued) \<Rightarrow>
            queued = [rid]
          \<and> get_reminder rs' rid
              = Some (r\<lparr> rem_status := R_SENT, sent_at := Some utcnow,
                          sent_count := sent_count r + 1 \<rparr>)
          \<and> send_telegram_reminder rs' us rid Raises = task_error ''Failed to send message'')"
  apply (rule exI [of _ "[once_reminder]"])
  apply (rule exI [of _ "[7 \<mapsto> 4242]"])
  apply (rule exI [of _ "minutes 5"])
  apply (rule exI [of _ 1])
  apply (rule exI [of _ once_reminder])
  apply (simp add: check_due_reminders_def due_def process_due_def get_reminder_def
        send_telegram_reminder_def recurring_with_interval_def once_reminder_def
        water_reminder_def minutes_def Let_def)
  done

end
